theory Spec2Isabelle
  imports Complex_Main "HOL-Library.Sublist" "HOL-Library.Log_Nat"
begin

section \<open>Answer-sheet aligner: data\<close>

text \<open>
  The development embeds \<^verbatim>\<open>src/js/answer-sheet-aligner.js\<close> (class \<open>AnswerSheetAligner\<close>).

  A feature point is the JavaScript object \<open>{x, y}\<close>. The fields are called \<open>px\<close> and
  \<open>py\<close> here, so that \<open>x\<close> and \<open>y\<close> stay free for variables. Coordinates are
  JavaScript numbers: finite binary64 values, held as the reals they denote (no NaN, no
  infinity). Where the class computes with them (the subtraction in
  \<open>removeDuplicatePoints\<close>), the result is rounded, see \<open>binary64\<close> below.
\<close>

record point =
  px :: real
  py :: real

text \<open>\<open>{width, height}\<close>: the template size and the argument of \<open>new cv.Size\<close>.\<close>

record dims =
  width :: nat
  height :: nat

text \<open>The image element handed in by the page: its size and whatever it shows.\<close>

record image_element = dims +
  pixels :: "nat list"

text \<open>
  A \<open>cv.Mat\<close> as far as the class reads it: \<open>rows\<close>, \<open>cols\<close>, \<open>channels()\<close> and the
  element buffer. A contour (one entry of a \<open>cv.MatVector\<close>) is its point sequence. The
  result of \<open>approxPolyDP\<close> is kept as the list of its vertices: \<open>approx.rows\<close> is the
  length, \<open>approx.data32S[2j]\<close>, \<open>approx.data32S[2j+1]\<close> the \<open>j\<close>-th vertex. The result of
  \<open>HoughLinesP\<close> is the list of its segments \<open>(x1, y1, x2, y2)\<close>: \<open>linesP.rows\<close> is the
  length, \<open>linesP.data32F[4i .. 4i+3]\<close> the \<open>i\<close>-th segment.
\<close>

record mat =
  rows :: nat
  cols :: nat
  channels :: nat
  elems :: "real list"

type_synonym contour = "point list"

type_synonym segment = "real \<times> real \<times> real \<times> real"

text \<open>
  Everything that can be thrown. The constructors stand for the messages of the source:
  \<^item> \<open>NotInitialized\<close>: the early return of \<open>alignUserImage\<close> (module not initialised);
  \<^item> \<open>AlignmentFailed\<close>: thrown by \<open>alignUserImage\<close> when the fallback failed (alignment
    failed, take a clear picture again);
  \<^item> \<open>NoOuterFrameFound\<close>: thrown by \<open>fallbackAlignment\<close> (no valid answer-sheet contour);
  \<^item> \<open>NotQuadrilateral\<close>: thrown by \<open>fallbackAlignment\<close> (the contour is not a quadrilateral);
  \<^item> \<open>InvalidMatSize\<close>: thrown by \<open>preprocessImage\<close> (zero \<open>cols\<close> or \<open>rows\<close>);
  \<^item> \<open>OpenCVNotLoaded\<close>, \<open>MatUnavailable\<close>, \<open>MissingFunctions\<close>: the library checks of
    \<open>initializeWithTemplate\<close>;
  \<^item> \<open>ImageReadFailed\<close>, \<open>PreprocessFailed\<close>, \<open>DetectionFailed\<close>: the re-thrown errors of
    \<open>initializeWithTemplate\<close>, around the message of the caught one;
  \<^item> \<open>TypeError\<close>, \<open>ReferenceError\<close>: raised by the JavaScript runtime;
  \<^item> \<open>NativeFault\<close>: a value raised inside the OpenCV library that is not an \<open>Error\<close>
    object (OpenCV.js raises numbers, the addresses of its exceptions);
  \<^item> \<open>NativeError\<close>: an \<open>Error\<close> object raised inside the library or its bindings.
  All but \<open>NativeFault\<close> are \<open>Error\<close> objects and carry a message, identified with the
  constructor. The values \<open>null\<close> and \<open>undefined\<close> are taken never to be thrown.
\<close>

datatype fault =
    NotInitialized
  | AlignmentFailed
  | NoOuterFrameFound
  | NotQuadrilateral
  | InvalidMatSize
  | OpenCVNotLoaded
  | MatUnavailable
  | MissingFunctions "string list"
  | ImageReadFailed fault
  | PreprocessFailed fault
  | DetectionFailed fault
  | TypeError string
  | ReferenceError string
  | NativeFault nat
  | NativeError string

text \<open>
  The \<open>error\<close> field of a result: \<open>null\<close> on success, \<open>error.message\<close> of the caught
  value on failure. Reading \<open>message\<close> off a value that is not an \<open>Error\<close> object (a
  number) gives \<open>undefined\<close>.
\<close>

datatype js_message = Null | Undefined | Message fault

fun message :: "fault \<Rightarrow> js_message" where
  "message (NativeFault n) = Undefined"
| "message e = Message e"

text \<open>\<open>{success, points}\<close> of \<open>findLinesAndPoints\<close>; \<open>{success, alignedImage, error}\<close> of
  \<open>alignUserImage\<close> and \<open>fallbackAlignment\<close>.\<close>

record detection =
  det_success :: bool
  det_points :: "point list"

record alignment =
  success :: bool
  alignedImage :: "mat option"
  error :: js_message

section \<open>The OpenCV library as a parameter\<close>

text \<open>
  OpenCV.js is not part of the repository. The global \<open>cv\<close> is a parameter: a record of
  the functions the class calls, each returning its output or the fault it raises.
  Output arguments of the JavaScript API (\<open>dst\<close>, \<open>contours\<close>, \<open>linesP\<close>, \<open>approx\<close>) are
  results here; \<open>hierarchy\<close> is never read and is left out of the result.
  \<open>cv_has name\<close> is the truthiness of \<open>cv[name]\<close>.
\<close>

datatype color_code = COLOR_RGB2GRAY | COLOR_RGBA2GRAY

datatype threshold_type = THRESH_BINARY | THRESH_BINARY_OTSU

datatype adaptive_method = ADAPTIVE_THRESH_GAUSSIAN_C

datatype retrieval_mode = RETR_EXTERNAL

datatype chain_approx = CHAIN_APPROX_SIMPLE

record cv_lib =
  cv_has :: "string \<Rightarrow> bool"
  cv_imread :: "image_element \<Rightarrow> fault + mat"
  cv_cvtColor :: "mat \<Rightarrow> color_code \<Rightarrow> fault + mat"
  cv_threshold :: "mat \<Rightarrow> real \<Rightarrow> real \<Rightarrow> threshold_type \<Rightarrow> fault + mat"
  cv_adaptiveThreshold ::
    "mat \<Rightarrow> real \<Rightarrow> adaptive_method \<Rightarrow> threshold_type \<Rightarrow> nat \<Rightarrow> real \<Rightarrow> fault + mat"
  cv_findContours :: "mat \<Rightarrow> retrieval_mode \<Rightarrow> chain_approx \<Rightarrow> fault + contour list"
  cv_contourArea :: "contour \<Rightarrow> fault + real"
  cv_arcLength :: "contour \<Rightarrow> bool \<Rightarrow> fault + real"
  cv_approxPolyDP :: "contour \<Rightarrow> real \<Rightarrow> bool \<Rightarrow> fault + point list"
  cv_HoughLinesP :: "mat \<Rightarrow> real \<Rightarrow> real \<Rightarrow> nat \<Rightarrow> real \<Rightarrow> real \<Rightarrow> fault + segment list"
  cv_getPerspectiveTransform :: "mat \<Rightarrow> mat \<Rightarrow> fault + mat"
  cv_warpPerspective :: "mat \<Rightarrow> mat \<Rightarrow> dims \<Rightarrow> fault + mat"

section \<open>State: the aligner object and the native heap\<close>

text \<open>
  The fields of \<open>AnswerSheetAligner\<close>, as the constructor sets them, and the native
  objects that are alive. OpenCV.js objects live on the WebAssembly heap until their
  \<open>delete()\<close> is called; the garbage collector does not free them. A native object is
  recorded under a name for the place where it is created: the variable it is bound to
  there (\<open>gray\<close>, \<open>binary\<close>, \<open>binary1\<close>, \<open>contours\<close>, \<open>hierarchy\<close>, \<open>contour\<close>,
  \<open>linesP\<close>, \<open>approx\<close>, \<open>pointMatrix\<close>, \<open>alignedImg\<close>), or the call that returns it:
  \<open>ImreadMat\<close> is the result of \<open>cv.imread\<close> (\<open>templateMat\<close>, \<open>srcMat\<close>), \<open>GrayClone\<close> the
  \<open>srcMat.clone()\<close> of the preprocessor, \<open>BinaryClone\<close> the clone returned by
  \<open>selectBestBinary\<close> and \<open>preprocessImage\<close> (\<open>binaryTemplate\<close>, \<open>binarySrc\<close>),
  \<open>TransformM\<close> the matrix returned by \<open>cv.getPerspectiveTransform\<close> (\<open>M\<close>).
  \<open>live\<close> lists the objects created and not yet deleted, the latest first; \<open>free\<close>
  takes one object of the given name off the list.
\<close>

datatype native =
    ImreadMat
  | Gray
  | GrayClone
  | Binary
  | Binary1
  | Binary2
  | Binary3
  | BinaryClone
  | Contours
  | Hierarchy
  | Contour
  | LinesP
  | Approx
  | PointMatrix
  | TransformM
  | AlignedImg

record aligner =
  templateImage :: "mat option"
  templatePoints :: "point list"
  templateSize :: dims
  isInitialized :: bool

record world = aligner +
  live :: "native list"

definition alloc :: "native \<Rightarrow> world \<Rightarrow> world" where
  "alloc r w = w\<lparr>live := r # live w\<rparr>"

definition free :: "native \<Rightarrow> world \<Rightarrow> world" where
  "free r w = w\<lparr>live := remove1 r (live w)\<rparr>"

text \<open>
  A statement sequence runs on the state and ends with a value or a thrown fault; the
  state changes made before a throw stay. Constructors (\<open>new cv.Mat()\<close>,
  \<open>new cv.MatVector()\<close>), \<open>contours.get(i)\<close>, \<open>clone()\<close> and \<open>delete()\<close> are taken not to
  raise; the console calls are left out.
\<close>

type_synonym 'a prog = "world \<Rightarrow> (fault + 'a) \<times> world"

definition ret :: "'a \<Rightarrow> 'a prog" where
  "ret a = (\<lambda>w. (Inr a, w))"

definition throw :: "fault \<Rightarrow> 'a prog" where
  "throw e = (\<lambda>w. (Inl e, w))"

definition andThen :: "'a prog \<Rightarrow> ('a \<Rightarrow> 'b prog) \<Rightarrow> 'b prog" where
  "andThen m f = (\<lambda>w. case m w of (Inl e, w') \<Rightarrow> (Inl e, w') | (Inr a, w') \<Rightarrow> f a w')"

definition try_catch :: "'a prog \<Rightarrow> (fault \<Rightarrow> 'a prog) \<Rightarrow> 'a prog" where
  "try_catch m h = (\<lambda>w. case m w of (Inl e, w') \<Rightarrow> h e w' | (Inr a, w') \<Rightarrow> (Inr a, w'))"

text \<open>\<open>try { m } finally { fin }\<close>: \<open>fin\<close> runs on every exit of \<open>m\<close>; a fault of \<open>fin\<close>
  replaces the outcome of \<open>m\<close>.\<close>

definition try_finally :: "'a prog \<Rightarrow> unit prog \<Rightarrow> 'a prog" where
  "try_finally m fin =
     (\<lambda>w. case m w of (r, w') \<Rightarrow>
        (case fin w' of (Inl e, w'') \<Rightarrow> (Inl e, w'') | (Inr u, w'') \<Rightarrow> (r, w'')))"

definition call :: "fault + 'a \<Rightarrow> 'a prog" where
  "call outcome = (\<lambda>w. (outcome, w))"

definition new :: "native \<Rightarrow> unit prog" where
  "new r = (\<lambda>w. (Inr (), alloc r w))"

definition delete :: "native \<Rightarrow> unit prog" where
  "delete r = (\<lambda>w. (Inr (), free r w))"

text \<open>A library call that returns a fresh native object (\<open>imread\<close>,
  \<open>getPerspectiveTransform\<close>): the object exists once the call has returned.\<close>

definition call_new :: "native \<Rightarrow> fault + 'a \<Rightarrow> 'a prog" where
  "call_new r outcome = andThen (call outcome) (\<lambda>a. andThen (new r) (\<lambda>u. ret a))"

definition modify :: "(world \<Rightarrow> world) \<Rightarrow> unit prog" where
  "modify f = (\<lambda>w. (Inr (), f w))"

definition this :: "world prog" where
  "this = (\<lambda>w. (Inr w, w))"

section \<open>Geometry utilities\<close>

text \<open>
  Binary64 arithmetic. An operation of JavaScript on numbers returns the exact result
  rounded to the nearest binary64 value, ties to the even significand. \<open>exponent x\<close> is
  \<open>\<lfloor>log\<^sub>2 \<bar>x\<bar>\<rfloor>\<close>, computed on integers; a binary64 value has 53 significant bits, so
  the spacing of the values around \<open>x\<close> is \<open>2\<close> to the power \<open>exponent x - 52\<close>, and
  never below \<open>2\<close> to the power \<open>-1074\<close> (subnormal range). A result beyond the largest
  finite value is infinite in JavaScript and stays a large real here; both compare
  alike with a finite threshold.
\<close>

definition round_half_even :: "real \<Rightarrow> int" where
  "round_half_even x =
     (let f = \<lfloor>x\<rfloor>; d = x - of_int f
      in if d < 1 / 2 then f else if 1 / 2 < d then f + 1 else if even f then f else f + 1)"

definition exponent :: "real \<Rightarrow> int" where
  "exponent x =
     (if 1 \<le> \<bar>x\<bar> then bitlen \<lfloor>\<bar>x\<bar>\<rfloor> - 1 else - int (ceillog2 (nat \<lceil>1 / \<bar>x\<bar>\<rceil>)))"

definition binary64 :: "real \<Rightarrow> real" where
  "binary64 x =
     (if x = 0 then 0
      else let e = max (exponent x - 52) (- 1074); ulp = 2 powi e
           in of_int (round_half_even (x / ulp)) * ulp)"

text \<open>
  \<^verbatim>\<open>removeDuplicatePoints(points, threshold = 10)\<close>: the \<open>forEach\<close> over \<open>points\<close> with the
  accumulator \<open>uniquePoints\<close>; \<open>some\<close> is \<open>list_ex\<close>. The default parameter is taken
  when the argument is absent (\<open>None\<close>). \<open>uniquePoint.x - point.x\<close> is a binary64
  subtraction; \<open>Math.abs\<close> and the comparison are exact.
\<close>

fun removeDuplicatePoints_forEach :: "real \<Rightarrow> point list \<Rightarrow> point list \<Rightarrow> point list" where
  "removeDuplicatePoints_forEach threshold [] uniquePoints = uniquePoints"
| "removeDuplicatePoints_forEach threshold (p # points) uniquePoints =
     (let isDuplicate =
            list_ex (\<lambda>uniquePoint. \<bar>binary64 (px uniquePoint - px p)\<bar> < threshold \<and>
                                   \<bar>binary64 (py uniquePoint - py p)\<bar> < threshold) uniquePoints
      in removeDuplicatePoints_forEach threshold points
           (if \<not> isDuplicate then uniquePoints @ [p] else uniquePoints))"

definition removeDuplicatePoints :: "point list \<Rightarrow> real option \<Rightarrow> point list" where
  "removeDuplicatePoints points threshold =
     removeDuplicatePoints_forEach (case threshold of None \<Rightarrow> 10 | Some t \<Rightarrow> t) points []"

text \<open>\<open>Math.atan2(v, u)\<close>, the angle of the vector \<open>(u, v)\<close> in \<open>(-\<pi>, \<pi>]\<close>.\<close>

definition atan2 :: "real \<Rightarrow> real \<Rightarrow> real" where
  "atan2 v u =
     (if 0 < u then arctan (v / u)
      else if u < 0 \<and> 0 \<le> v then arctan (v / u) + pi
      else if u < 0 then arctan (v / u) - pi
      else if 0 < v then pi / 2
      else if v < 0 then - (pi / 2)
      else 0)"

text \<open>
  \<^verbatim>\<open>sortCorners(corners)\<close>: the centre is the mean of the corners; \<open>Array.sort\<close> with the
  comparator \<open>angleA - angleB\<close> is a stable sort by ascending angle around the centre.
\<close>

definition sortCorners :: "point list \<Rightarrow> point list" where
  "sortCorners corners =
     (let total = foldl (\<lambda>c corner. (fst c + px corner, snd c + py corner)) (0, 0) corners;
          center_x = fst total / real (length corners);
          center_y = snd total / real (length corners)
      in sort_key (\<lambda>a. atan2 (py a - center_y) (px a - center_x)) corners)"

text \<open>
  \<^verbatim>\<open>createCVPointMatrix(points)\<close>: a fresh \<open>4 \<times> 1\<close> two-channel float matrix; entry \<open>i\<close>
  is written for \<open>i < 4\<close> and \<open>i < points.length\<close>. The fresh buffer is taken as zeros.
  \<open>createCVPointMatrix_fill\<close> is the \<open>for\<close> loop.
\<close>

definition createCVPointMatrix_fill :: "point list \<Rightarrow> mat \<Rightarrow> mat" where
  "createCVPointMatrix_fill points pointMatrix0 =
     foldl (\<lambda>pointMatrix i.
              if i < length points
              then pointMatrix\<lparr>elems := (elems pointMatrix)
                     [i * 2 := px (points ! i), i * 2 + 1 := py (points ! i)]\<rparr>
              else pointMatrix)
       pointMatrix0 [0..<4]"

definition createCVPointMatrix :: "point list \<Rightarrow> mat prog" where
  "createCVPointMatrix points =
     andThen (new PointMatrix) (\<lambda>u.
     ret (createCVPointMatrix_fill points
            \<lparr>rows = 4, cols = 1, channels = 2, elems = replicate 8 0\<rparr>))"

text \<open>\<^verbatim>\<open>calculatePerspectiveTransform(srcPoints, dstPoints)\<close>. The two point matrices are
  never deleted.\<close>

definition calculatePerspectiveTransform :: "cv_lib \<Rightarrow> point list \<Rightarrow> point list \<Rightarrow> mat prog" where
  "calculatePerspectiveTransform cv srcPoints dstPoints =
     andThen (createCVPointMatrix srcPoints) (\<lambda>srcPointsMat.
     andThen (createCVPointMatrix dstPoints) (\<lambda>dstPointsMat.
     call_new TransformM (cv_getPerspectiveTransform cv srcPointsMat dstPointsMat)))"

section \<open>Preprocessor\<close>

text \<open>
  The inner loop of \<^verbatim>\<open>selectBestBinary\<close>: \<open>validContourCount\<close> counts the contours with
  \<open>area > minContourArea\<close>, \<open>minContourArea = 10\<close>. Each \<open>contours.get(j)\<close> is deleted
  at the end of its iteration.
\<close>

fun validContourCount_loop :: "cv_lib \<Rightarrow> contour list \<Rightarrow> nat \<Rightarrow> nat prog" where
  "validContourCount_loop cv [] validContourCount = ret validContourCount"
| "validContourCount_loop cv (c # rest) validContourCount =
     andThen (new Contour) (\<lambda>u.
     andThen (call (cv_contourArea cv c)) (\<lambda>area.
     andThen (delete Contour) (\<lambda>u.
     validContourCount_loop cv rest
       (if area > 10 then validContourCount + 1 else validContourCount))))"

text \<open>
  The outer loop of \<^verbatim>\<open>selectBestBinary\<close> with its locals \<open>(bestBinary, bestScore)\<close>. Each
  iteration binds \<open>contours\<close> and \<open>hierarchy\<close> to fresh objects; a fault while a candidate
  is scored is caught inside the loop and the candidate is skipped.
\<close>

fun selectBestBinary_loop ::
  "cv_lib \<Rightarrow> mat list \<Rightarrow> mat option \<times> int \<Rightarrow> (mat option \<times> int) prog" where
  "selectBestBinary_loop cv [] best = ret best"
| "selectBestBinary_loop cv (binary # rest) best =
     andThen
       (try_catch
          (andThen (new Contours) (\<lambda>u.
           andThen (new Hierarchy) (\<lambda>u.
           andThen (call (cv_findContours cv binary RETR_EXTERNAL CHAIN_APPROX_SIMPLE)) (\<lambda>contours.
           andThen (validContourCount_loop cv contours 0) (\<lambda>score.
           ret (if int score > snd best then (Some binary, int score) else best))))))
          (\<lambda>error. ret best))
       (\<lambda>best'. selectBestBinary_loop cv rest best')"

text \<open>
  \<^verbatim>\<open>selectBestBinary(binaryResults, gray)\<close>: \<open>bestBinary = null\<close>, \<open>bestScore = -1\<close>; the
  result is a clone of the best candidate, or of \<open>binaryResults[0]\<close> when none was
  scored. The \<open>finally\<close> block deletes the \<open>contours\<close> and \<open>hierarchy\<close> that the variables
  hold at that moment, those of the last iteration; its own faults are swallowed.
\<close>

definition selectBestBinary :: "cv_lib \<Rightarrow> mat list \<Rightarrow> mat \<Rightarrow> mat prog" where
  "selectBestBinary cv binaryResults gray =
     try_finally
       (andThen (selectBestBinary_loop cv binaryResults (None, - 1)) (\<lambda>best.
          case fst best of
            Some bestBinary \<Rightarrow> call_new BinaryClone (Inr bestBinary)
          | None \<Rightarrow>
              (case binaryResults of
                 [] \<Rightarrow> throw (TypeError ''binaryResults[0] is undefined'')
               | first # others \<Rightarrow> call_new BinaryClone (Inr first))))
       (try_catch
          (if binaryResults \<noteq> []
           then andThen (delete Contours) (\<lambda>u. delete Hierarchy)
           else ret ())
          (\<lambda>cleanupError. ret ()))"

text \<open>
  The grayscale conversion of \<^verbatim>\<open>preprocessImage\<close>: \<open>gray = new cv.Mat()\<close> is filled by
  \<open>cvtColor\<close> for 3 and 4 channels; otherwise the variable is rebound to
  \<open>srcMat.clone()\<close>. The second component is the object \<open>gray\<close> is bound to afterwards.
\<close>

definition preprocessImage_gray :: "cv_lib \<Rightarrow> mat \<Rightarrow> world \<Rightarrow> ((fault + mat) \<times> native) \<times> world" where
  "preprocessImage_gray cv srcMat w =
     (if channels srcMat = 3 then ((cv_cvtColor cv srcMat COLOR_RGB2GRAY, Gray), alloc Gray w)
      else if channels srcMat = 4 then ((cv_cvtColor cv srcMat COLOR_RGBA2GRAY, Gray), alloc Gray w)
      else ((Inr srcMat, GrayClone), alloc GrayClone (alloc Gray w)))"

text \<open>
  The \<open>try\<close> block of \<^verbatim>\<open>preprocessImage(srcMat)\<close>. Its \<open>finally\<close> block reads the locals
  \<open>gray\<close> and \<open>binaryResults\<close>, so the block returns them with its outcome: the object
  \<open>gray\<close> is bound to (if any) and the candidates pushed so far. A candidate is pushed
  after its threshold call has returned. The candidates are, in this order: Otsu
  (\<open>threshold(gray, binary1, 0, 255, THRESH_BINARY + THRESH_OTSU)\<close>), Gaussian adaptive
  (\<open>adaptiveThreshold(gray, binary2, 255, ADAPTIVE_THRESH_GAUSSIAN_C, THRESH_BINARY, 11, 2)\<close>)
  and fixed (\<open>threshold(gray, binary3, 128, 255, THRESH_BINARY)\<close>).
  The test \<open>!srcMat\<close> cannot hold for a \<open>mat\<close> and is left out.
\<close>

definition preprocessImage_try ::
  "cv_lib \<Rightarrow> mat \<Rightarrow> world \<Rightarrow> ((fault + mat) \<times> native option \<times> native list) \<times> world" where
  "preprocessImage_try cv srcMat w =
     (if cols srcMat = 0 \<or> rows srcMat = 0 then ((Inl InvalidMatSize, None, []), w)
      else
        case preprocessImage_gray cv srcMat w of
          ((Inl e, g), w1) \<Rightarrow> ((Inl e, Some g, []), w1)
        | ((Inr gray, g), w1) \<Rightarrow>
           (case cv_threshold cv gray 0 255 THRESH_BINARY_OTSU of
              Inl e \<Rightarrow> ((Inl e, Some g, []), alloc Binary1 w1)
            | Inr binary1 \<Rightarrow>
               (case cv_adaptiveThreshold cv gray 255 ADAPTIVE_THRESH_GAUSSIAN_C THRESH_BINARY 11 2 of
                  Inl e \<Rightarrow> ((Inl e, Some g, [Binary1]), alloc Binary2 (alloc Binary1 w1))
                | Inr binary2 \<Rightarrow>
                   (case cv_threshold cv gray 128 255 THRESH_BINARY of
                      Inl e \<Rightarrow>
                        ((Inl e, Some g, [Binary1, Binary2]),
                         alloc Binary3 (alloc Binary2 (alloc Binary1 w1)))
                    | Inr binary3 \<Rightarrow>
                       (case selectBestBinary cv [binary1, binary2, binary3] gray
                               (alloc Binary3 (alloc Binary2 (alloc Binary1 w1))) of
                          (binary, w2) \<Rightarrow>
                            ((binary, Some g, [Binary1, Binary2, Binary3]), w2))))))"

text \<open>
  \<^verbatim>\<open>preprocessImage(srcMat)\<close>: the \<open>catch\<close> block re-throws; the \<open>finally\<close> block deletes
  \<open>gray\<close> and every pushed candidate. The test \<open>mat !== binary\<close> always holds there:
  \<open>binary\<close> is \<open>null\<close> or the clone made by \<open>selectBestBinary\<close>.
\<close>

definition preprocessImage :: "cv_lib \<Rightarrow> mat \<Rightarrow> mat prog" where
  "preprocessImage cv srcMat =
     (\<lambda>w. case preprocessImage_try cv srcMat w of
        ((outcome, gray, binaryResults), w1) \<Rightarrow>
          (outcome,
           foldl (\<lambda>w' m. free m w')
             (case gray of None \<Rightarrow> w1 | Some g \<Rightarrow> free g w1) binaryResults))"

section \<open>Feature detector\<close>

text \<open>
  The contour loop of \<^verbatim>\<open>findLinesAndPoints\<close> with the accumulator \<open>points\<close>: contours with
  \<open>area > 100\<close> are approximated with \<open>epsilon = 0.02 * arcLength(contour, true)\<close>; a
  four-vertex approximation contributes its four vertices.
\<close>

fun findLinesAndPoints_contours :: "cv_lib \<Rightarrow> contour list \<Rightarrow> point list \<Rightarrow> (point list) prog" where
  "findLinesAndPoints_contours cv [] points = ret points"
| "findLinesAndPoints_contours cv (c # rest) points =
     andThen (new Contour) (\<lambda>u.
     andThen (call (cv_contourArea cv c)) (\<lambda>area.
     andThen
       (if area > 100
        then andThen (new Approx) (\<lambda>u.
             andThen (call (cv_arcLength cv c True)) (\<lambda>perimeter.
             andThen (call (cv_approxPolyDP cv c (0.02 * perimeter) True)) (\<lambda>approx.
             andThen (delete Approx) (\<lambda>u.
             ret (if length approx = 4 then points @ approx else points)))))
        else ret points) (\<lambda>points'.
     andThen (delete Contour) (\<lambda>u.
     findLinesAndPoints_contours cv rest points'))))"

text \<open>The \<open>try\<close> block of \<^verbatim>\<open>findLinesAndPoints(binaryImage)\<close>.\<close>

definition findLinesAndPoints_try :: "cv_lib \<Rightarrow> mat \<Rightarrow> detection prog" where
  "findLinesAndPoints_try cv binaryImage =
     andThen (new LinesP) (\<lambda>u.
     andThen (call (cv_HoughLinesP cv binaryImage 1 (pi / 180) 50 50 10)) (\<lambda>linesP.
     let linePoints =
           concat (map (\<lambda>(x1, y1, x2, y2). [\<lparr>px = x1, py = y1\<rparr>, \<lparr>px = x2, py = y2\<rparr>]) linesP)
     in
     andThen (delete LinesP) (\<lambda>u.
     andThen (new Contours) (\<lambda>u.
     andThen (new Hierarchy) (\<lambda>u.
     andThen (call (cv_findContours cv binaryImage RETR_EXTERNAL CHAIN_APPROX_SIMPLE)) (\<lambda>contours.
     andThen (findLinesAndPoints_contours cv contours []) (\<lambda>points.
     andThen (delete Contours) (\<lambda>u.
     andThen (delete Hierarchy) (\<lambda>u.
     let allPoints = points @ linePoints;
         uniquePoints = removeDuplicatePoints allPoints (Some 10)
     in ret \<lparr>det_success = (length uniquePoints \<ge> 4), det_points = uniquePoints\<rparr>)))))))))"

definition findLinesAndPoints :: "cv_lib \<Rightarrow> mat \<Rightarrow> detection prog" where
  "findLinesAndPoints cv binaryImage =
     try_catch (findLinesAndPoints_try cv binaryImage)
       (\<lambda>error. ret \<lparr>det_success = False, det_points = []\<rparr>)"

section \<open>Fallback aligner\<close>

text \<open>
  The contour loop of \<^verbatim>\<open>fallbackAlignment\<close> with its locals \<open>(maxArea, maxContour)\<close>. The
  objects returned by \<open>contours.get(i)\<close> are never deleted.
\<close>

fun fallbackAlignment_loop ::
  "cv_lib \<Rightarrow> contour list \<Rightarrow> real \<times> contour option \<Rightarrow> (real \<times> contour option) prog" where
  "fallbackAlignment_loop cv [] best = ret best"
| "fallbackAlignment_loop cv (c # rest) best =
     andThen (new Contour) (\<lambda>u.
     andThen (call (cv_contourArea cv c)) (\<lambda>area.
     fallbackAlignment_loop cv rest (if area > fst best then (area, Some c) else best)))"

text \<open>The \<open>try\<close> block of \<^verbatim>\<open>fallbackAlignment(srcMat)\<close>.\<close>

definition fallbackAlignment_try :: "cv_lib \<Rightarrow> mat \<Rightarrow> alignment prog" where
  "fallbackAlignment_try cv srcMat =
     andThen (new Gray) (\<lambda>u.
     andThen (call (cv_cvtColor cv srcMat COLOR_RGBA2GRAY)) (\<lambda>gray.
     andThen (new Binary) (\<lambda>u.
     andThen (call (cv_threshold cv gray 0 255 THRESH_BINARY_OTSU)) (\<lambda>binary.
     andThen (new Contours) (\<lambda>u.
     andThen (new Hierarchy) (\<lambda>u.
     andThen (call (cv_findContours cv binary RETR_EXTERNAL CHAIN_APPROX_SIMPLE)) (\<lambda>contours.
     andThen (fallbackAlignment_loop cv contours (0, None)) (\<lambda>best.
     case snd best of
       None \<Rightarrow> throw NoOuterFrameFound
     | Some maxContour \<Rightarrow>
         if fst best < real (rows srcMat * cols srcMat) * 0.1 then throw NoOuterFrameFound
         else
           andThen (new Approx) (\<lambda>u.
           andThen (call (cv_arcLength cv maxContour True)) (\<lambda>perimeter.
           andThen (call (cv_approxPolyDP cv maxContour (0.02 * perimeter) True)) (\<lambda>approx.
           if length approx \<noteq> 4 then throw NotQuadrilateral
           else
             let srcPoints = approx;
                 sortedPoints = sortCorners srcPoints
             in
             andThen this (\<lambda>self.
             let dstPoints =
                   [\<lparr>px = 0, py = 0\<rparr>,
                    \<lparr>px = real (width (templateSize self)), py = 0\<rparr>,
                    \<lparr>px = real (width (templateSize self)), py = real (height (templateSize self))\<rparr>,
                    \<lparr>px = 0, py = real (height (templateSize self))\<rparr>]
             in
             andThen (calculatePerspectiveTransform cv sortedPoints dstPoints) (\<lambda>M.
             andThen (new AlignedImg) (\<lambda>u.
             andThen (call (cv_warpPerspective cv srcMat M
                        \<lparr>width = width (templateSize self), height = height (templateSize self)\<rparr>))
               (\<lambda>alignedImg.
             andThen (delete Gray) (\<lambda>u.
             andThen (delete Binary) (\<lambda>u.
             andThen (delete Contours) (\<lambda>u.
             andThen (delete Hierarchy) (\<lambda>u.
             andThen (delete Approx) (\<lambda>u.
             andThen (delete TransformM) (\<lambda>u.
             ret \<lparr>success = True, alignedImage = Some alignedImg, error = Null\<rparr>
             )))))))))))))))))))))"

definition fallbackAlignment :: "cv_lib \<Rightarrow> mat \<Rightarrow> alignment prog" where
  "fallbackAlignment cv srcMat =
     try_catch (fallbackAlignment_try cv srcMat)
       (\<lambda>error. ret \<lparr>success = False, alignedImage = None, error = message error\<rparr>)"

section \<open>Orchestrator\<close>

text \<open>
  The global \<open>cv\<close> is \<open>None\<close> while the library is not loaded. Reading it then raises a
  \<open>ReferenceError\<close>; \<open>initializeWithTemplate\<close> tests it first and throws, and its
  \<open>catch\<close> block treats every fault alike.

  The \<open>try\<close> block of \<^verbatim>\<open>alignUserImage(userImageElement)\<close>. On the primary path the two
  point matrices stay alive; on the fallback path and on every throw \<open>srcMat\<close> and
  \<open>binarySrc\<close> (the clone returned by \<open>preprocessImage\<close>) stay alive.
\<close>

definition alignUserImage_try :: "cv_lib option \<Rightarrow> image_element \<Rightarrow> alignment prog" where
  "alignUserImage_try global_cv userImageElement =
     (case global_cv of
        None \<Rightarrow> throw (ReferenceError ''cv is not defined'')
      | Some cv \<Rightarrow>
         andThen (call_new ImreadMat (cv_imread cv userImageElement)) (\<lambda>srcMat.
         andThen (preprocessImage cv srcMat) (\<lambda>binarySrc.
         andThen (findLinesAndPoints cv binarySrc) (\<lambda>srcResult.
         if \<not> det_success srcResult \<or> length (det_points srcResult) < 4
         then
           andThen (fallbackAlignment cv srcMat) (\<lambda>fallbackResult.
           if \<not> success fallbackResult then throw AlignmentFailed
           else ret fallbackResult)
         else
           andThen this (\<lambda>self.
           andThen (calculatePerspectiveTransform cv (det_points srcResult) (templatePoints self))
             (\<lambda>M.
           andThen (new AlignedImg) (\<lambda>u.
           andThen (call (cv_warpPerspective cv srcMat M
                      \<lparr>width = width (templateSize self), height = height (templateSize self)\<rparr>))
             (\<lambda>alignedImg.
           andThen (delete ImreadMat) (\<lambda>u.
           andThen (delete BinaryClone) (\<lambda>u.
           andThen (delete TransformM) (\<lambda>u.
           ret \<lparr>success = True, alignedImage = Some alignedImg, error = Null\<rparr>)))))))))))"

text \<open>\<^verbatim>\<open>alignUserImage(userImageElement)\<close>: the readiness test, then the \<open>try\<close> block under
  its \<open>catch\<close>.\<close>

definition alignUserImage :: "cv_lib option \<Rightarrow> image_element \<Rightarrow> alignment prog" where
  "alignUserImage global_cv userImageElement =
     andThen this (\<lambda>self.
     if \<not> isInitialized self
     then ret \<lparr>success = False, alignedImage = None, error = Message NotInitialized\<rparr>
     else
       try_catch (alignUserImage_try global_cv userImageElement)
         (\<lambda>error. ret \<lparr>success = False, alignedImage = None, error = message error\<rparr>))"

text \<open>
  \<open>initializeWithTemplate\<close> calls \<open>this.getFallbackPoints(templateMat)\<close>. The class
  defines no member of that name, and no other file of the repository adds one: the
  property is \<open>undefined\<close>, and calling it raises a \<open>TypeError\<close>.
\<close>

definition getFallbackPoints :: "(mat \<Rightarrow> (point list) prog) option" where
  "getFallbackPoints = None"

definition requiredFunctions :: "string list" where
  "requiredFunctions = [''imread'', ''Mat'', ''cvtColor'', ''threshold'', ''Canny'', ''HoughLinesP'']"

text \<open>The \<open>try\<close> block of \<^verbatim>\<open>initializeWithTemplate(templateImage)\<close>; the parameter is
  called \<open>templateImg\<close> here, \<open>templateImage\<close> being the field.\<close>

definition initializeWithTemplate_try :: "cv_lib option \<Rightarrow> image_element \<Rightarrow> bool prog" where
  "initializeWithTemplate_try global_cv templateImg =
     (case global_cv of
        None \<Rightarrow> throw OpenCVNotLoaded
      | Some cv \<Rightarrow>
         if \<not> cv_has cv ''Mat'' then throw MatUnavailable
         else
           let missingFunctions = filter (\<lambda>func. \<not> cv_has cv func) requiredFunctions in
           if length missingFunctions > 0 then throw (MissingFunctions missingFunctions)
           else
             andThen (modify (\<lambda>w. w\<lparr>templateSize :=
                        \<lparr>width = width templateImg, height = height templateImg\<rparr>\<rparr>)) (\<lambda>u.
             andThen (try_catch (call_new ImreadMat (cv_imread cv templateImg))
                        (\<lambda>readError. throw (ImageReadFailed readError))) (\<lambda>templateMat.
             andThen (try_catch (preprocessImage cv templateMat)
                        (\<lambda>preprocessError. throw (PreprocessFailed preprocessError)))
               (\<lambda>binaryTemplate.
             andThen (try_catch (findLinesAndPoints cv binaryTemplate)
                        (\<lambda>detectionError. throw (DetectionFailed detectionError)))
               (\<lambda>templateResult.
             andThen
               (if \<not> det_success templateResult \<or> length (det_points templateResult) < 4
                then
                  andThen
                    (case getFallbackPoints of
                       None \<Rightarrow> throw (TypeError ''this.getFallbackPoints is not a function'')
                     | Some method \<Rightarrow> method templateMat) (\<lambda>fallbackPoints.
                  modify (\<lambda>w. w\<lparr>templatePoints := fallbackPoints\<rparr>))
                else modify (\<lambda>w. w\<lparr>templatePoints := det_points templateResult\<rparr>)) (\<lambda>u.
             andThen (delete ImreadMat) (\<lambda>u.
             andThen (delete BinaryClone) (\<lambda>u.
             andThen (modify (\<lambda>w. w\<lparr>isInitialized := True\<rparr>)) (\<lambda>u.
             ret True)))))))))"

definition initializeWithTemplate :: "cv_lib option \<Rightarrow> image_element \<Rightarrow> bool prog" where
  "initializeWithTemplate global_cv templateImg =
     try_catch (initializeWithTemplate_try global_cv templateImg)
       (\<lambda>error. andThen (modify (\<lambda>w. w\<lparr>isInitialized := False\<rparr>)) (\<lambda>u. ret False))"

section \<open>Transform estimator and warper of the specification\<close>








section \<open>Concrete libraries and inputs\<close>

text \<open>
  A freshly constructed aligner with nothing alive on the native heap, and the same
  aligner made ready for an \<open>800 \<times> 600\<close> template with four corner marks.
\<close>

definition new_aligner :: world where
  "new_aligner =
     \<lparr>templateImage = None, templatePoints = [],
      templateSize = \<lparr>width = 0, height = 0\<rparr>, isInitialized = False, live = []\<rparr>"

definition ready_aligner :: world where
  "ready_aligner =
     \<lparr>templateImage = None,
      templatePoints = [\<lparr>px = 20, py = 20\<rparr>, \<lparr>px = 780, py = 20\<rparr>,
                        \<lparr>px = 780, py = 580\<rparr>, \<lparr>px = 20, py = 580\<rparr>],
      templateSize = \<lparr>width = 800, height = 600\<rparr>, isInitialized = True, live = []\<rparr>"

text \<open>A \<open>100 \<times> 100\<close> picture element, and \<open>100 \<times> 100\<close> matrices of 4, 3 and 1 channels.\<close>

definition picture :: image_element where
  "picture = \<lparr>width = 100, height = 100, pixels = []\<rparr>"

definition rgba_mat :: mat where
  "rgba_mat = \<lparr>rows = 100, cols = 100, channels = 4, elems = []\<rparr>"

definition rgb_mat :: mat where
  "rgb_mat = \<lparr>rows = 100, cols = 100, channels = 3, elems = []\<rparr>"

definition gray_mat :: mat where
  "gray_mat = \<lparr>rows = 100, cols = 100, channels = 1, elems = []\<rparr>"

text \<open>The area of an axis-aligned rectangle given by its four corners in cyclic order;
  any other point sequence counts as empty.\<close>

definition rectangle_area :: "contour \<Rightarrow> real" where
  "rectangle_area c =
     (case c of
        [a, b, d, e] \<Rightarrow> \<bar>px d - px a\<bar> * \<bar>py d - py a\<bar>
      | other \<Rightarrow> 0)"

definition rectangle :: "real \<Rightarrow> real \<Rightarrow> real \<Rightarrow> real \<Rightarrow> contour" where
  "rectangle x0 y0 x1 y1 =
     [\<lparr>px = x0, py = y0\<rparr>, \<lparr>px = x1, py = y0\<rparr>, \<lparr>px = x1, py = y1\<rparr>, \<lparr>px = x0, py = y1\<rparr>]"

text \<open>
  A library as it behaves on a picture in which it finds nothing (a uniformly dark
  sheet): every call returns, no line segment and no contour is found. \<open>imread\<close>
  yields a 4-channel matrix of the element's size; the thresholds record their
  parameter in the buffer, so that the three candidates of the preprocessor differ;
  polygons are approximated by themselves.
\<close>

definition cv_blank :: cv_lib where
  "cv_blank =
     \<lparr>cv_has = (\<lambda>name. True),
      cv_imread = (\<lambda>el. Inr \<lparr>rows = height el, cols = width el, channels = 4,
                              elems = map real (pixels el)\<rparr>),
      cv_cvtColor = (\<lambda>m code. Inr (m\<lparr>channels := 1\<rparr>)),
      cv_threshold = (\<lambda>m thresh maxval type. Inr (m\<lparr>elems := [thresh]\<rparr>)),
      cv_adaptiveThreshold = (\<lambda>m maxval method type blockSize c. Inr (m\<lparr>elems := [real blockSize]\<rparr>)),
      cv_findContours = (\<lambda>m mode method. Inr []),
      cv_contourArea = (\<lambda>c. Inr (rectangle_area c)),
      cv_arcLength = (\<lambda>c closed. Inr 0),
      cv_approxPolyDP = (\<lambda>c epsilon closed. Inr c),
      cv_HoughLinesP = (\<lambda>m rho theta votes minLineLength maxLineGap. Inr []),
      cv_getPerspectiveTransform =
        (\<lambda>src dst. Inr \<lparr>rows = 3, cols = 3, channels = 1, elems = [1, 0, 0, 0, 1, 0, 0, 0, 1]\<rparr>),
      cv_warpPerspective = (\<lambda>src M dsize. Inr (src\<lparr>rows := height dsize, cols := width dsize\<rparr>))\<rparr>"

text \<open>The same library on pictures that show one rectangular frame from \<open>(10, 10)\<close> to
  \<open>(90, 90)\<close>; and on such pictures when the line transform raises.\<close>

definition cv_frame :: cv_lib where
  "cv_frame = cv_blank\<lparr>cv_findContours := (\<lambda>m mode method. Inr [rectangle 10 10 90 90])\<rparr>"

definition cv_frame_hough_fault :: cv_lib where
  "cv_frame_hough_fault =
     cv_frame\<lparr>cv_HoughLinesP := (\<lambda>m rho theta votes minLineLength maxLineGap. Inl (NativeFault 1))\<rparr>"

text \<open>
  The same library on a picture with two line segments and no contour, where an end
  point of the second segment lies within 10 of an end point of the first; and on the
  framed picture with one segment that starts within 10 of a corner of the frame.
\<close>

definition cv_segments :: cv_lib where
  "cv_segments =
     cv_blank\<lparr>cv_HoughLinesP := (\<lambda>m rho theta votes minLineLength maxLineGap.
        Inr [(0, 0, 100, 0), (100, 5, 0, 100)])\<rparr>"

definition cv_frame_segment :: cv_lib where
  "cv_frame_segment =
     cv_frame\<lparr>cv_HoughLinesP := (\<lambda>m rho theta votes minLineLength maxLineGap.
        Inr [(12, 12, 50, 50)])\<rparr>"

text \<open>The same library on pictures that show one large five-cornered outline.\<close>

definition cv_pentagon :: cv_lib where
  "cv_pentagon =
     cv_frame\<lparr>cv_approxPolyDP := (\<lambda>c epsilon closed. Inr (c @ [\<lparr>px = 50, py = 95\<rparr>]))\<rparr>"

text \<open>A library whose colour conversion accepts 4-channel input only.\<close>

definition cv_rgba_only :: cv_lib where
  "cv_rgba_only =
     cv_frame\<lparr>cv_cvtColor := (\<lambda>m code.
        if channels m = 4 then Inr (m\<lparr>channels := 1\<rparr>) else Inl (NativeFault 2))\<rparr>"

text \<open>
  A library on a picture whose three binarizations show 2, 5 and 3 rectangles of area
  16, next to one rectangle of area 10 in the first: the candidates are told apart by
  the threshold parameter recorded in their buffer.
\<close>

definition cv_counts :: cv_lib where
  "cv_counts =
     cv_blank\<lparr>cv_findContours := (\<lambda>m mode method.
        Inr (if elems m = [0] then replicate 2 (rectangle 0 0 4 4) @ [rectangle 0 0 2 5]
             else if elems m = [11] then replicate 5 (rectangle 0 0 4 4)
             else replicate 3 (rectangle 0 0 4 4)))\<rparr>"



section \<open>Running statements\<close>

lemma ret_apply [simp]: "ret a w = (Inr a, w)"
  by (simp add: ret_def)

lemma throw_apply [simp]: "throw e w = (Inl e, w)"
  by (simp add: throw_def)

lemma call_apply [simp]: "call outcome w = (outcome, w)"
  by (simp add: call_def)

lemma new_apply [simp]: "new r w = (Inr (), alloc r w)"
  by (simp add: new_def)

lemma delete_apply [simp]: "delete r w = (Inr (), free r w)"
  by (simp add: delete_def)

lemma modify_apply [simp]: "modify f w = (Inr (), f w)"
  by (simp add: modify_def)

lemma this_apply [simp]: "this w = (Inr w, w)"
  by (simp add: this_def)

lemma andThen_apply:
  "andThen m f w = (case m w of (Inl e, w') \<Rightarrow> (Inl e, w') | (Inr a, w') \<Rightarrow> f a w')"
  by (simp add: andThen_def)

lemma try_catch_apply:
  "try_catch m h w = (case m w of (Inl e, w') \<Rightarrow> h e w' | (Inr a, w') \<Rightarrow> (Inr a, w'))"
  by (simp add: try_catch_def)

lemma try_finally_apply:
  "try_finally m fin w = (case m w of (r, w') \<Rightarrow>
        (case fin w' of (Inl e, w'') \<Rightarrow> (Inl e, w'') | (Inr u, w'') \<Rightarrow> (r, w'')))"
  by (simp add: try_finally_def)

lemma call_new_apply [simp]:
  "call_new r outcome w = (case outcome of Inl e \<Rightarrow> (Inl e, w) | Inr a \<Rightarrow> (Inr a, alloc r w))"
  by (simp add: call_new_def andThen_apply split: sum.splits)

lemma andThen_Inr [simp]: "m w = (Inr a, w') \<Longrightarrow> andThen m f w = f a w'"
  by (simp add: andThen_apply)

lemma andThen_Inl [simp]: "m w = (Inl e, w') \<Longrightarrow> andThen m f w = (Inl e, w')"
  by (simp add: andThen_apply)

lemma free_alloc [simp]: "free r (alloc r w) = w"
  by (simp add: free_def alloc_def)

lemma live_alloc [simp]: "live (alloc r w) = r # live w"
  by (simp add: alloc_def)

lemma live_free [simp]: "live (free r w) = remove1 r (live w)"
  by (simp add: free_def)

lemmas prog_apply = andThen_apply try_catch_apply try_finally_apply

lemma andThen_InrE:
  assumes "andThen m f w = (Inr r, w')"
  obtains a w1 where "m w = (Inr a, w1)" "f a w1 = (Inr r, w')"
  using assms by (auto simp: andThen_apply split: prod.splits sum.splits)


subsection \<open>The loops when every library call returns\<close>

lemma validContourCount_loop_ok:
  "\<forall>c \<in> set cs. cv_contourArea cv c = Inr (area c) \<Longrightarrow>
   validContourCount_loop cv cs n w = (Inr (n + length (filter (\<lambda>c. area c > 10) cs)), w)"
  by (induction cs arbitrary: n) (simp_all add: andThen_apply)

lemma selectBestBinary_loop_step:
  assumes "cv_findContours cv b RETR_EXTERNAL CHAIN_APPROX_SIMPLE = Inr cs"
    and "\<forall>c \<in> set cs. cv_contourArea cv c = Inr (area c)"
  shows "selectBestBinary_loop cv (b # rest) best w =
     selectBestBinary_loop cv rest
       (if int (length (filter (\<lambda>c. area c > 10) cs)) > snd best
        then (Some b, int (length (filter (\<lambda>c. area c > 10) cs))) else best)
       (alloc Hierarchy (alloc Contours w))"
  using assms(1) by (simp add: andThen_apply try_catch_apply validContourCount_loop_ok[OF assms(2)])

lemma findLinesAndPoints_contours_ok:
  "\<forall>c \<in> set cs. cv_contourArea cv c = Inr (area c) \<and>
     (area c > 100 \<longrightarrow> cv_arcLength cv c True = Inr (perimeter c) \<and>
        cv_approxPolyDP cv c (0.02 * perimeter c) True = Inr (poly c)) \<Longrightarrow>
   findLinesAndPoints_contours cv cs pts w =
     (Inr (pts @ concat (map (\<lambda>c. if area c > 100 \<and> length (poly c) = 4 then poly c else []) cs)), w)"
  by (induction cs arbitrary: pts) (simp_all add: andThen_apply)

lemma fallbackAlignment_loop_ok:
  "\<forall>c \<in> set cs. cv_contourArea cv c = Inr (area c) \<Longrightarrow>
   fallbackAlignment_loop cv cs best w =
     (Inr (foldl (\<lambda>b c. if area c > fst b then (area c, Some c) else b) best cs),
      (alloc Contour ^^ length cs) w)"
  by (induction cs arbitrary: best w) (simp_all add: andThen_apply funpow_swap1)

lemma largest_below:
  "\<forall>c \<in> set cs. area c < (bound::real) \<Longrightarrow> snd best = None \<or> fst best < bound \<Longrightarrow>
   snd (foldl (\<lambda>b c. if area c > fst b then (area c, Some c) else b) best cs) = None \<or>
   fst (foldl (\<lambda>b c. if area c > fst b then (area c, Some c) else b) best cs) < bound"
  by (induction cs arbitrary: best) simp_all

lemma largest_prefix:
  "\<forall>c \<in> set cs. area c < (bound::real) \<Longrightarrow> fst best < bound \<Longrightarrow>
   fst (foldl (\<lambda>b c. if area c > fst b then (area c, Some c) else b) best cs) < bound"
  by (induction cs arbitrary: best) simp_all

lemma largest_suffix:
  "\<forall>c \<in> set cs. area c \<le> (fst best :: real) \<Longrightarrow>
   foldl (\<lambda>b c. if area c > fst b then (area c, Some c) else b) best cs = best"
  by (induction cs arbitrary: best) simp_all

lemma largest_first_max:
  assumes "\<forall>c \<in> set pre. area c < area mc" "\<forall>c \<in> set post. area c \<le> area mc" "(0::real) < area mc"
  shows "foldl (\<lambda>b c. if area c > fst b then (area c, Some c) else b) (0, None) (pre @ mc # post)
           = (area mc, Some mc)"
proof -
  let ?f = "\<lambda>b c. if area c > fst b then (area c, Some c) else b"
  have "fst (foldl ?f (0, None) pre) < area mc"
    using assms(1,3) by (intro largest_prefix) simp_all
  then have "foldl ?f (0, None) (pre @ [mc]) = (area mc, Some mc)" by simp
  moreover have "foldl ?f (area mc, Some mc) post = (area mc, Some mc)"
    using assms(2) by (intro largest_suffix) simp
  ultimately show ?thesis by simp
qed


section \<open>Claims\<close>

subsection \<open>The readiness test\<close>

text \<open>
  C8. A call to \<open>alignUserImage\<close> on an aligner that is not ready returns the error
  result \<open>{success: false, alignedImage: null, error}\<close> and leaves the whole state as
  it was: template points, template size, readiness flag, and the native heap.
\<close>

theorem alignUserImage_requires_ready:
  "\<not> isInitialized w \<Longrightarrow>
   alignUserImage global_cv userImageElement w =
     (Inr \<lparr>success = False, alignedImage = None, error = Message NotInitialized\<rparr>, w)"
  by (simp add: alignUserImage_def andThen_apply)

theorem alignUserImage_requires_ready_witness:
  "\<not> isInitialized new_aligner \<and>
   alignUserImage (Some cv_frame) picture new_aligner =
     (Inr \<lparr>success = False, alignedImage = None, error = Message NotInitialized\<rparr>, new_aligner)"
  using alignUserImage_requires_ready [of new_aligner "Some cv_frame" picture]
  by (simp add: new_aligner_def)

subsection \<open>The frame tests of the fallback aligner\<close>

lemma fallbackAlignment_try_no_frame:
  assumes "cv_cvtColor cv srcMat COLOR_RGBA2GRAY = Inr gray"
    and "cv_threshold cv gray 0 255 THRESH_BINARY_OTSU = Inr binary"
    and "cv_findContours cv binary RETR_EXTERNAL CHAIN_APPROX_SIMPLE = Inr contours"
    and "\<forall>c \<in> set contours. cv_contourArea cv c = Inr (area c)"
    and "\<forall>c \<in> set contours. area c < real (rows srcMat * cols srcMat) * 0.1"
  shows "fst (fallbackAlignment_try cv srcMat w) = Inl NoOuterFrameFound"
proof -
  let ?best = "foldl (\<lambda>b c. if area c > fst b then (area c, Some c) else b) (0, None) contours"
  have "snd ?best = None \<or> fst ?best < real (rows srcMat * cols srcMat) * 0.1"
    using assms(5) by (intro largest_below) simp_all
  then show ?thesis
    using assms(1-3)
    by (auto simp: fallbackAlignment_try_def andThen_apply fallbackAlignment_loop_ok[OF assms(4)]
          split: option.splits)
qed

lemma fallbackAlignment_try_not_quadrilateral:
  assumes "cv_cvtColor cv srcMat COLOR_RGBA2GRAY = Inr gray"
    and "cv_threshold cv gray 0 255 THRESH_BINARY_OTSU = Inr binary"
    and "cv_findContours cv binary RETR_EXTERNAL CHAIN_APPROX_SIMPLE = Inr (pre @ maxContour # post)"
    and "\<forall>c \<in> set (pre @ maxContour # post). cv_contourArea cv c = Inr (area c)"
    and "\<forall>c \<in> set pre. area c < area maxContour"
    and "\<forall>c \<in> set post. area c \<le> area maxContour"
    and "0 < area maxContour"
    and "real (rows srcMat * cols srcMat) * 0.1 \<le> area maxContour"
    and "cv_arcLength cv maxContour True = Inr perimeter"
    and "cv_approxPolyDP cv maxContour (0.02 * perimeter) True = Inr approx"
    and "length approx \<noteq> 4"
  shows "fst (fallbackAlignment_try cv srcMat w) = Inl NotQuadrilateral"
  using assms(1-3,8-11)
  by (simp add: fallbackAlignment_try_def andThen_apply fallbackAlignment_loop_ok[OF assms(4)]
        largest_first_max[OF assms(5,6,7)] del: foldl_append foldl_Cons)

lemma fallbackAlignment_fst:
  "fst (fallbackAlignment cv srcMat w) =
     (case fst (fallbackAlignment_try cv srcMat w) of
        Inl e \<Rightarrow> Inr \<lparr>success = False, alignedImage = None, error = message e\<rparr>
      | Inr r \<Rightarrow> Inr r)"
  by (simp add: fallbackAlignment_def try_catch_apply split: prod.splits sum.splits)

text \<open>
  C7. Let the conversion, the threshold, the contour search and the area measurements
  of \<open>fallbackAlignment\<close> return. If every external contour has an area below 10% of
  the frame area \<open>rows * cols\<close> (in particular if there is none), the call returns \<open>{success: false, error}\<close> with the no-outer-frame error.
  If the first contour of maximal area reaches 10% of a non-empty frame and its
  approximation with \<open>epsilon\<close> 2% of its perimeter does not have exactly 4 vertices,
  the call returns \<open>{success: false, error}\<close> with the not-quadrilateral error.
\<close>

theorem fallbackAlignment_frame_requirements:
  assumes "cv_cvtColor cv srcMat COLOR_RGBA2GRAY = Inr gray"
    and "cv_threshold cv gray 0 255 THRESH_BINARY_OTSU = Inr binary"
    and "cv_findContours cv binary RETR_EXTERNAL CHAIN_APPROX_SIMPLE = Inr contours"
    and "\<forall>c \<in> set contours. cv_contourArea cv c = Inr (area c)"
  shows "((\<forall>c \<in> set contours. area c < real (rows srcMat * cols srcMat) * 0.1) \<longrightarrow>
            fst (fallbackAlignment cv srcMat w) =
              Inr \<lparr>success = False, alignedImage = None, error = Message NoOuterFrameFound\<rparr>) \<and>
         (contours = pre @ maxContour # post \<and>
          (\<forall>c \<in> set pre. area c < area maxContour) \<and>
          (\<forall>c \<in> set post. area c \<le> area maxContour) \<and>
          0 < rows srcMat * cols srcMat \<and>
          real (rows srcMat * cols srcMat) * 0.1 \<le> area maxContour \<and>
          cv_arcLength cv maxContour True = Inr perimeter \<and>
          cv_approxPolyDP cv maxContour (0.02 * perimeter) True = Inr approx \<and>
          length approx \<noteq> 4 \<longrightarrow>
            fst (fallbackAlignment cv srcMat w) =
              Inr \<lparr>success = False, alignedImage = None, error = Message NotQuadrilateral\<rparr>)"
proof (intro conjI impI)
  assume "\<forall>c \<in> set contours. area c < real (rows srcMat * cols srcMat) * 0.1"
  from fallbackAlignment_try_no_frame[OF assms this]
  show "fst (fallbackAlignment cv srcMat w) =
          Inr \<lparr>success = False, alignedImage = None, error = Message NoOuterFrameFound\<rparr>"
    by (simp add: fallbackAlignment_fst)
next
  assume h: "contours = pre @ maxContour # post \<and>
          (\<forall>c \<in> set pre. area c < area maxContour) \<and>
          (\<forall>c \<in> set post. area c \<le> area maxContour) \<and>
          0 < rows srcMat * cols srcMat \<and>
          real (rows srcMat * cols srcMat) * 0.1 \<le> area maxContour \<and>
          cv_arcLength cv maxContour True = Inr perimeter \<and>
          cv_approxPolyDP cv maxContour (0.02 * perimeter) True = Inr approx \<and>
          length approx \<noteq> 4"
  then have shape: "contours = pre @ maxContour # post"
    and pre: "\<forall>c \<in> set pre. area c < area maxContour"
    and post: "\<forall>c \<in> set post. area c \<le> area maxContour"
    and frame: "0 < rows srcMat * cols srcMat"
    and large: "real (rows srcMat * cols srcMat) * 0.1 \<le> area maxContour"
    and arc: "cv_arcLength cv maxContour True = Inr perimeter"
    and poly: "cv_approxPolyDP cv maxContour (0.02 * perimeter) True = Inr approx"
    and vertices: "length approx \<noteq> 4"
    by blast+
  from frame have "0 < real (rows srcMat * cols srcMat) * 0.1" by simp
  with large have pos: "0 < area maxContour" by linarith
  have "fst (fallbackAlignment_try cv srcMat w) = Inl NotQuadrilateral"
    using assms(1,2) assms(3,4)[unfolded shape] pre post pos large arc poly vertices
    by (rule fallbackAlignment_try_not_quadrilateral)
  then show "fst (fallbackAlignment cv srcMat w) =
          Inr \<lparr>success = False, alignedImage = None, error = Message NotQuadrilateral\<rparr>"
    by (simp add: fallbackAlignment_fst)
qed

theorem fallbackAlignment_frame_requirements_witness:
  "fst (fallbackAlignment cv_blank rgba_mat ready_aligner) =
     Inr \<lparr>success = False, alignedImage = None, error = Message NoOuterFrameFound\<rparr> \<and>
   fst (fallbackAlignment cv_pentagon rgba_mat ready_aligner) =
     Inr \<lparr>success = False, alignedImage = None, error = Message NotQuadrilateral\<rparr>"
  using fallbackAlignment_frame_requirements
          [where cv = cv_blank and srcMat = rgba_mat and gray = "rgba_mat\<lparr>channels := 1\<rparr>"
             and binary = "rgba_mat\<lparr>channels := 1, elems := [0]\<rparr>" and contours = "[]"
             and area = rectangle_area and w = ready_aligner]
        fallbackAlignment_frame_requirements
          [where cv = cv_pentagon and srcMat = rgba_mat and gray = "rgba_mat\<lparr>channels := 1\<rparr>"
             and binary = "rgba_mat\<lparr>channels := 1, elems := [0]\<rparr>"
             and contours = "[rectangle 10 10 90 90]" and area = rectangle_area
             and pre = "[]" and maxContour = "rectangle 10 10 90 90" and post = "[]"
             and perimeter = 0 and approx = "rectangle 10 10 90 90 @ [\<lparr>px = 50, py = 95\<rparr>]"
             and w = ready_aligner]
  by (simp add: cv_blank_def cv_frame_def cv_pentagon_def rectangle_def rectangle_area_def
        rgba_mat_def)


subsection \<open>Binary64 rounding\<close>

lemma round_half_even_of_int [simp]: "round_half_even (of_int m) = m"
  by (simp add: round_half_even_def)

lemma round_half_even_bounds: "\<lfloor>x\<rfloor> \<le> round_half_even x \<and> round_half_even x \<le> \<lceil>x\<rceil>"
proof -
  have "x - of_int \<lfloor>x\<rfloor> > 0 \<Longrightarrow> \<lceil>x\<rceil> = \<lfloor>x\<rfloor> + 1"
    by (simp add: ceiling_altdef)
  then show ?thesis
    by (auto simp: round_half_even_def Let_def ceiling_altdef)
qed

lemma exponent_bounds:
  assumes "x \<noteq> 0"
  shows "2 powi exponent x \<le> \<bar>x\<bar> \<and> \<bar>x\<bar> < 2 powi (exponent x + 1)"
proof (cases "1 \<le> \<bar>x\<bar>")
  case True
  let ?m = "\<lfloor>\<bar>x\<bar>\<rfloor>"
  from True have m: "0 < ?m" by linarith
  from bitlen_bounds[OF m] have lo: "2 ^ nat (bitlen ?m - 1) \<le> ?m" and hi: "?m < 2 ^ nat (bitlen ?m)"
    by auto
  from m have b: "1 \<le> bitlen ?m" by (simp add: bitlen_alt_def)
  have "(2::real) powi (bitlen ?m - 1) = 2 ^ nat (bitlen ?m - 1)"
    using b by (simp add: power_int_def)
  also have "\<dots> = of_int (2 ^ nat (bitlen ?m - 1))" by simp
  also have "\<dots> \<le> of_int ?m" using lo by (simp only: of_int_le_iff)
  also have "\<dots> \<le> \<bar>x\<bar>" by linarith
  finally have 1: "2 powi (bitlen ?m - 1) \<le> \<bar>x\<bar>" .
  from hi have "?m + 1 \<le> 2 ^ nat (bitlen ?m)" by linarith
  then have "(of_int (?m + 1) :: real) \<le> of_int (2 ^ nat (bitlen ?m))" by (simp only: of_int_le_iff)
  then have "real_of_int ?m + 1 \<le> 2 ^ nat (bitlen ?m)" by simp
  moreover have "\<bar>x\<bar> < real_of_int ?m + 1" by linarith
  ultimately have "\<bar>x\<bar> < 2 ^ nat (bitlen ?m)" by linarith
  also have "\<dots> = 2 powi (bitlen ?m - 1 + 1)" using b by (simp add: power_int_def)
  finally have 2: "\<bar>x\<bar> < 2 powi (bitlen ?m - 1 + 1)" .
  from True 1 2 show ?thesis by (simp add: exponent_def)
next
  case False
  let ?y = "1 / \<bar>x\<bar>"
  let ?n = "nat \<lceil>?y\<rceil>"
  let ?k = "ceillog2 ?n"
  from False assms have x: "0 < \<bar>x\<bar>" "\<bar>x\<bar> < 1" by auto
  then have y: "1 < ?y" by simp
  then have n2: "2 \<le> ?n" by linarith
  have yn: "?y \<le> real ?n" by linarith
  have ny: "real ?n < ?y + 1" using y by linarith
  have "?n \<le> 2 ^ ?k" by (rule le_two_power_ceillog2)
  then have "real ?n \<le> 2 ^ ?k" by (metis of_nat_le_iff of_nat_numeral of_nat_power)
  with yn have "?y \<le> 2 ^ ?k" by linarith
  then have 1: "1 / 2 ^ ?k \<le> \<bar>x\<bar>" using x
    by (simp add: field_simps)
  from n2 have pos: "0 < ?n" by linarith
  have k1: "1 \<le> ?k"
  proof -
    from n2 have "2 < 2 * ?n" by linarith
    then have "2 ^ 1 < 2 * ?n" by (simp only: power_one_right)
    with ceillog2_ge_iff[OF pos, of 1] show ?thesis by blast
  qed
  from two_power_ceillog2_gt[OF pos] have "2 ^ ?k < 2 * ?n" .
  then have "2 * 2 ^ (?k - 1) < 2 * ?n" using k1 by (cases ?k) simp_all
  then have "2 ^ (?k - 1) + 1 \<le> ?n" by linarith
  then have "real (2 ^ (?k - 1) + 1) \<le> real ?n" by (simp only: of_nat_le_iff)
  with ny have "2 ^ (?k - 1) < ?y" by simp
  then have "\<bar>x\<bar> < 1 / 2 ^ (?k - 1)" using x by (simp add: field_simps)
  also have "\<dots> = 2 / 2 ^ ?k" using k1 by (cases ?k) simp_all
  finally have 2: "\<bar>x\<bar> < 2 / 2 ^ ?k" .
  have p1: "(2::real) powi (- int ?k) = 1 / 2 ^ ?k"
    by (simp add: power_int_def field_simps)
  have p2: "(2::real) powi (1 - int ?k) = 2 / 2 ^ ?k"
    by (simp add: power_int_diff)
  from False 1 2 show ?thesis by (simp add: exponent_def p1 p2)
qed

lemma binary64_of_int:
  assumes "\<bar>n\<bar> < 2 ^ 53"
  shows "binary64 (of_int n) = of_int n"
proof (cases "n = 0")
  case True
  then show ?thesis by (simp add: binary64_def)
next
  case False
  let ?x = "of_int n :: real"
  let ?e = "max (exponent ?x - 52) (- 1074)"
  have ge1: "1 \<le> \<bar>?x\<bar>" using False by (simp flip: of_int_abs)
  have "exponent ?x \<le> 52"
  proof -
    have "\<lfloor>\<bar>?x\<bar>\<rfloor> = \<bar>n\<bar>" by (simp flip: of_int_abs)
    moreover have "bitlen \<bar>n\<bar> \<le> 53"
      using assms by (simp add: bitlen_le_iff_power)
    ultimately show ?thesis using ge1 by (simp add: exponent_def)
  qed
  then have "?e \<le> 0" by simp
  then have "?e = - int (nat (- ?e))" by simp
  then obtain k where k: "?e = - int k" ..
  have ulp: "(2::real) powi ?e = 1 / 2 ^ k"
    unfolding k by (simp add: power_int_def field_simps)
  have "?x / (2 powi ?e) = of_int (n * 2 ^ k)"
    unfolding ulp by simp
  then have "round_half_even (?x / (2 powi ?e)) = n * 2 ^ k"
    by (simp only: round_half_even_of_int)
  then have "binary64 ?x = of_int (n * 2 ^ k) * (1 / 2 ^ k)"
    using False by (simp add: binary64_def Let_def ulp)
  then show ?thesis by simp
qed

lemma binary64_numeral [simp]:
  "numeral k < (2::int) ^ 53 \<Longrightarrow> binary64 (numeral k) = numeral k"
  using binary64_of_int[of "numeral k"] by simp

lemma binary64_neg_numeral [simp]:
  "numeral k < (2::int) ^ 53 \<Longrightarrow> binary64 (- numeral k) = - numeral k"
  using binary64_of_int[of "- numeral k"] by simp

lemma binary64_0 [simp]: "binary64 0 = 0"
  by (simp add: binary64_def)

lemma binary64_1 [simp]: "binary64 1 = 1" "binary64 (- 1) = - 1"
  using binary64_of_int[of 1] binary64_of_int[of "- 1"] by simp_all

lemma round_half_even_ge: "of_int K \<le> y \<Longrightarrow> K \<le> round_half_even y"
  using round_half_even_bounds[of y] by (meson le_floor_iff order_trans)

lemma round_half_even_le: "y \<le> of_int K \<Longrightarrow> round_half_even y \<le> K"
  using round_half_even_bounds[of y] by (meson ceiling_le_iff order_trans)

lemma binary64_keeps_ten:
  assumes "10 \<le> \<bar>d\<bar>"
  shows "10 \<le> \<bar>binary64 d\<bar>"
proof -
  from assms have d0: "d \<noteq> 0" by auto
  let ?ex = "exponent d"
  let ?e = "max (?ex - 52) (- 1074)"
  let ?ulp = "(2::real) powi ?e"
  have ulp_pos: "0 < ?ulp" by simp
  from exponent_bounds[OF d0] have lo: "2 powi ?ex \<le> \<bar>d\<bar>" and hi: "\<bar>d\<bar> < 2 powi (?ex + 1)"
    by auto
  have e0: "3 \<le> ?ex"
  proof (rule ccontr)
    assume "\<not> 3 \<le> ?ex"
    then have "?ex + 1 \<le> 3" by simp
    then have "(2::real) powi (?ex + 1) \<le> 2 powi 3"
      by (intro power_int_increasing) simp_all
    with hi assms show False by simp
  qed
  then have e: "?e = ?ex - 52" by simp
  have "\<exists>K. 10 \<le> of_int K * ?ulp \<and> of_int K \<le> \<bar>d\<bar> / ?ulp"
  proof (cases "?e \<le> 1")
    case True
    then have "?e = 1 - int (nat (1 - ?e))" by simp
    then obtain k where k: "?e = 1 - int k" ..
    have "(2::real) powi (1 - int k) = 2 powi 1 / 2 powi (int k)"
      by (rule power_int_diff) simp
    then have u: "?ulp = 2 / 2 ^ k"
      by (simp only: k power_int_1_right power_int_of_nat)
    have "10 / ?ulp = of_int (5 * 2 ^ k)"
      unfolding u by simp
    moreover have "10 / ?ulp \<le> \<bar>d\<bar> / ?ulp"
      using assms ulp_pos by (simp add: divide_right_mono)
    moreover have "of_int (5 * 2 ^ k) * ?ulp = 10"
      unfolding u by simp
    ultimately show ?thesis
      by (intro exI[of _ "5 * 2 ^ k"]) simp
  next
    case False
    then have big: "2 \<le> ?e" by simp
    have "(2::real) powi 2 \<le> ?ulp"
      using big by (intro power_int_increasing) simp_all
    then have u4: "4 \<le> ?ulp" by simp
    have "2 powi ?ex / ?ulp = (2::real) powi (?ex - ?e)"
      by (rule power_int_diff[symmetric]) simp
    also have "\<dots> = 2 powi 52" unfolding e by simp
    finally have "2 powi ?ex / ?ulp = (2::real) ^ 52" by simp
    moreover have "2 powi ?ex / ?ulp \<le> \<bar>d\<bar> / ?ulp"
      using lo ulp_pos by (simp add: divide_right_mono)
    ultimately have a: "of_int (2 ^ 52) \<le> \<bar>d\<bar> / ?ulp" by simp
    have "(10::real) \<le> 2 ^ 52 * 4" by simp
    also have "\<dots> \<le> 2 ^ 52 * ?ulp" using u4 by simp
    finally have b: "10 \<le> of_int (2 ^ 52) * ?ulp" by simp
    from a b show ?thesis by blast
  qed
  then obtain K where K10: "10 \<le> of_int K * ?ulp" and Kd: "of_int K \<le> \<bar>d\<bar> / ?ulp"
    by blast
  have val: "binary64 d = of_int (round_half_even (d / ?ulp)) * ?ulp"
    using d0 by (simp add: binary64_def Let_def)
  show ?thesis
  proof (cases "0 \<le> d")
    case True
    with Kd have "of_int K \<le> d / ?ulp" by simp
    then have "K \<le> round_half_even (d / ?ulp)" by (rule round_half_even_ge)
    then have "of_int K * ?ulp \<le> of_int (round_half_even (d / ?ulp)) * ?ulp"
      using ulp_pos by (simp add: mult_right_mono)
    with K10 show ?thesis unfolding val by linarith
  next
    case False
    with Kd have "d / ?ulp \<le> of_int (- K)" by (simp add: abs_if divide_simps split: if_splits)
    then have "round_half_even (d / ?ulp) \<le> - K" by (rule round_half_even_le)
    then have "of_int (round_half_even (d / ?ulp)) * ?ulp \<le> of_int (- K) * ?ulp"
      using ulp_pos by (simp add: mult_right_mono del: of_int_minus)
    then have "of_int (round_half_even (d / ?ulp)) * ?ulp \<le> - (of_int K * ?ulp)"
      by simp
    with K10 show ?thesis unfolding val by linarith
  qed
qed

lemma binary64_below_ten: "\<bar>binary64 d\<bar> < 10 \<Longrightarrow> \<bar>d\<bar> < 10"
  using binary64_keeps_ten[of d] by linarith

subsection \<open>Deduplication\<close>

lemma removeDuplicatePoints_forEach_append:
  "removeDuplicatePoints_forEach t (ps @ qs) kept =
     removeDuplicatePoints_forEach t qs (removeDuplicatePoints_forEach t ps kept)"
  by (induction ps arbitrary: kept) (simp_all add: Let_def)

lemma removeDuplicatePoints_snoc:
  "removeDuplicatePoints (ps @ [p]) th =
     (let t = (case th of None \<Rightarrow> 10 | Some t \<Rightarrow> t); kept = removeDuplicatePoints ps th in
      if list_ex (\<lambda>q. \<bar>binary64 (px q - px p)\<bar> < t \<and> \<bar>binary64 (py q - py p)\<bar> < t) kept
      then kept else kept @ [p])"
  by (simp add: removeDuplicatePoints_def removeDuplicatePoints_forEach_append Let_def)

lemma removeDuplicatePoints_covers:
  assumes "0 < t"
  shows "q \<in> set ps \<Longrightarrow>
    \<exists>k \<in> set (removeDuplicatePoints ps (Some t)).
       \<bar>binary64 (px k - px q)\<bar> < t \<and> \<bar>binary64 (py k - py q)\<bar> < t"
proof (induction ps rule: rev_induct)
  case Nil
  then show ?case by simp
next
  case (snoc p ps)
  show ?case
  proof (cases "q \<in> set ps")
    case True
    with snoc.IH obtain k where "k \<in> set (removeDuplicatePoints ps (Some t))"
      "\<bar>binary64 (px k - px q)\<bar> < t \<and> \<bar>binary64 (py k - py q)\<bar> < t" by blast
    then show ?thesis
      by (auto simp: removeDuplicatePoints_snoc Let_def)
  next
    case False
    with snoc.prems have "q = p" by simp
    then show ?thesis using assms
      by (auto simp: removeDuplicatePoints_snoc Let_def list_ex_iff)
  qed
qed

lemma removeDuplicatePoints_apart:
  "i < j \<Longrightarrow> j < length (removeDuplicatePoints ps (Some t)) \<Longrightarrow>
   \<not> (\<bar>binary64 (px (removeDuplicatePoints ps (Some t) ! i) -
                   px (removeDuplicatePoints ps (Some t) ! j))\<bar> < t \<and>
      \<bar>binary64 (py (removeDuplicatePoints ps (Some t) ! i) -
                   py (removeDuplicatePoints ps (Some t) ! j))\<bar> < t)"
proof (induction ps arbitrary: i j rule: rev_induct)
  case Nil
  then show ?case by (simp add: removeDuplicatePoints_def)
next
  case (snoc p ps)
  let ?kept = "removeDuplicatePoints ps (Some t)"
  show ?case
  proof (cases "list_ex (\<lambda>q. \<bar>binary64 (px q - px p)\<bar> < t \<and> \<bar>binary64 (py q - py p)\<bar> < t) ?kept")
    case True
    then have "removeDuplicatePoints (ps @ [p]) (Some t) = ?kept"
      by (simp add: removeDuplicatePoints_snoc)
    with snoc show ?thesis by simp
  next
    case False
    then have eq: "removeDuplicatePoints (ps @ [p]) (Some t) = ?kept @ [p]"
      by (simp add: removeDuplicatePoints_snoc)
    show ?thesis
    proof (cases "j < length ?kept")
      case True
      with snoc.IH[of i j] snoc.prems(1) show ?thesis
        by (simp add: eq nth_append)
    next
      case False
      with snoc.prems have j: "j = length ?kept" and i: "i < length ?kept"
        by (simp_all add: eq)
      from i have "?kept ! i \<in> set ?kept" by simp
      with \<open>\<not> list_ex _ ?kept\<close> have
        "\<not> (\<bar>binary64 (px (?kept ! i) - px p)\<bar> < t \<and> \<bar>binary64 (py (?kept ! i) - py p)\<bar> < t)"
        by (auto simp: list_ex_iff)
      then show ?thesis using i j by (simp add: eq nth_append)
    qed
  qed
qed

lemma first_occurrences_snoc:
  "rev (remdups (rev (ps @ [p]))) =
     (if p \<in> set ps then rev (remdups (rev ps)) else rev (remdups (rev ps)) @ [p])"
  by simp

lemma removeDuplicatePoints_first_occurrences:
  assumes "0 < t"
  shows "subseq (removeDuplicatePoints ps (Some t)) (rev (remdups (rev ps)))"
proof (induction ps rule: rev_induct)
  case Nil
  then show ?case by (simp add: removeDuplicatePoints_def)
next
  case (snoc p ps)
  let ?kept = "removeDuplicatePoints ps (Some t)"
  show ?case
  proof (cases "list_ex (\<lambda>q. \<bar>binary64 (px q - px p)\<bar> < t \<and> \<bar>binary64 (py q - py p)\<bar> < t) ?kept")
    case True
    then have "removeDuplicatePoints (ps @ [p]) (Some t) = ?kept"
      by (simp add: removeDuplicatePoints_snoc)
    moreover have "subseq (rev (remdups (rev ps))) (rev (remdups (rev (ps @ [p]))))"
      by (simp add: first_occurrences_snoc prefix_imp_subseq del: rev_append remdups.simps)
    ultimately show ?thesis using snoc.IH subseq_order.order_trans by metis
  next
    case False
    then have eq: "removeDuplicatePoints (ps @ [p]) (Some t) = ?kept @ [p]"
      by (simp add: removeDuplicatePoints_snoc)
    have "p \<notin> set ps"
    proof
      assume "p \<in> set ps"
      from removeDuplicatePoints_covers[OF assms this] False show False
        by (simp add: list_ex_iff)
    qed
    then have "rev (remdups (rev (ps @ [p]))) = rev (remdups (rev ps)) @ [p]"
      by simp
    with eq snoc.IH show ?thesis
      by (simp add: subseq_append del: rev_append remdups.simps)
  qed
qed

lemma removeDuplicatePoints_subseq:
  "subseq (removeDuplicatePoints ps th) ps"
proof (induction ps rule: rev_induct)
  case Nil
  then show ?case by (simp add: removeDuplicatePoints_def)
next
  case (snoc p ps)
  then show ?case
    by (auto simp: removeDuplicatePoints_snoc Let_def subseq_append intro: subseq_order.order_trans
          prefix_imp_subseq)
qed

lemma removeDuplicatePoints_default:
  "removeDuplicatePoints ps None = removeDuplicatePoints ps (Some 10)"
  by (simp add: removeDuplicatePoints_def)

lemma binary64_plus_minus:
  "\<bar>d\<bar> = 9 \<Longrightarrow> \<bar>binary64 d\<bar> = 9" "\<bar>d\<bar> = 10 \<Longrightarrow> \<bar>binary64 d\<bar> = 10"
proof -
  have "\<bar>d\<bar> = 9 \<Longrightarrow> d = 9 \<or> d = - 9" "\<bar>d\<bar> = 10 \<Longrightarrow> d = 10 \<or> d = - 10"
    by linarith+
  then show "\<bar>d\<bar> = 9 \<Longrightarrow> \<bar>binary64 d\<bar> = 9" "\<bar>d\<bar> = 10 \<Longrightarrow> \<bar>binary64 d\<bar> = 10"
    by auto
qed

text \<open>
  C6 (amended). With the default threshold 10, an incoming point is dropped if and only
  if some point already kept differs from it by less than 10 on both axes, where the
  difference is the one the code computes, the binary64 subtraction; it is appended
  otherwise. A computed difference below 10 is an exact difference below 10, so two
  points 10 or more apart on an axis never merge; and the computed difference is the
  exact one where that is an integer below 2 to the power 53 (pixel coordinates). Two points 9
  apart on both axes merge into the first, two points exactly 10 apart on an axis are
  both kept; and the output lists kept points in the order of their first occurrence
  in the input.
\<close>

theorem removeDuplicatePoints_computed_deltas:
  "removeDuplicatePoints (points @ [p]) None =
     (if \<exists>kept \<in> set (removeDuplicatePoints points None).
           \<bar>binary64 (px kept - px p)\<bar> < 10 \<and> \<bar>binary64 (py kept - py p)\<bar> < 10
      then removeDuplicatePoints points None
      else removeDuplicatePoints points None @ [p]) \<and>
   (\<bar>binary64 (px a - px b)\<bar> < 10 \<and> \<bar>binary64 (py a - py b)\<bar> < 10 \<longrightarrow>
      \<bar>px a - px b\<bar> < 10 \<and> \<bar>py a - py b\<bar> < 10) \<and>
   (px a - px b = of_int m \<and> py a - py b = of_int n \<and> \<bar>m\<bar> < 2 ^ 53 \<and> \<bar>n\<bar> < 2 ^ 53 \<longrightarrow>
      binary64 (px a - px b) = px a - px b \<and> binary64 (py a - py b) = py a - py b) \<and>
   (\<bar>px a - px b\<bar> = 9 \<and> \<bar>py a - py b\<bar> = 9 \<longrightarrow> removeDuplicatePoints [a, b] None = [a]) \<and>
   (\<bar>px a - px b\<bar> = 10 \<or> \<bar>py a - py b\<bar> = 10 \<longrightarrow> removeDuplicatePoints [a, b] None = [a, b]) \<and>
   subseq (removeDuplicatePoints points None) (rev (remdups (rev points)))"
proof (intro conjI)
  show "removeDuplicatePoints (points @ [p]) None =
     (if \<exists>kept \<in> set (removeDuplicatePoints points None).
           \<bar>binary64 (px kept - px p)\<bar> < 10 \<and> \<bar>binary64 (py kept - py p)\<bar> < 10
      then removeDuplicatePoints points None
      else removeDuplicatePoints points None @ [p])"
    by (simp add: removeDuplicatePoints_snoc list_ex_iff Let_def)
  show "\<bar>binary64 (px a - px b)\<bar> < 10 \<and> \<bar>binary64 (py a - py b)\<bar> < 10 \<longrightarrow>
      \<bar>px a - px b\<bar> < 10 \<and> \<bar>py a - py b\<bar> < 10"
    using binary64_below_ten by blast
  show "px a - px b = of_int m \<and> py a - py b = of_int n \<and> \<bar>m\<bar> < 2 ^ 53 \<and> \<bar>n\<bar> < 2 ^ 53 \<longrightarrow>
      binary64 (px a - px b) = px a - px b \<and> binary64 (py a - py b) = py a - py b"
    using binary64_of_int by simp
  show "\<bar>px a - px b\<bar> = 9 \<and> \<bar>py a - py b\<bar> = 9 \<longrightarrow> removeDuplicatePoints [a, b] None = [a]"
    by (simp add: removeDuplicatePoints_def binary64_plus_minus)
  show "\<bar>px a - px b\<bar> = 10 \<or> \<bar>py a - py b\<bar> = 10 \<longrightarrow> removeDuplicatePoints [a, b] None = [a, b]"
    by (auto simp: removeDuplicatePoints_def binary64_plus_minus)
  show "subseq (removeDuplicatePoints points None) (rev (remdups (rev points)))"
    using removeDuplicatePoints_first_occurrences[of 10 points]
    by (simp add: removeDuplicatePoints_default)
qed

theorem removeDuplicatePoints_computed_deltas_witness:
  "removeDuplicatePoints [\<lparr>px = 0, py = 0\<rparr>, \<lparr>px = 9, py = 9\<rparr>] None = [\<lparr>px = 0, py = 0\<rparr>] \<and>
   removeDuplicatePoints [\<lparr>px = 0, py = 0\<rparr>, \<lparr>px = 10, py = 0\<rparr>] None =
     [\<lparr>px = 0, py = 0\<rparr>, \<lparr>px = 10, py = 0\<rparr>] \<and>
   removeDuplicatePoints [\<lparr>px = 0, py = 0\<rparr>, \<lparr>px = 3, py = 10\<rparr>, \<lparr>px = 0, py = 0\<rparr>] None =
     [\<lparr>px = 0, py = 0\<rparr>, \<lparr>px = 3, py = 10\<rparr>]"
  using removeDuplicatePoints_computed_deltas
          [of "[\<lparr>px = 0, py = 0\<rparr>, \<lparr>px = 3, py = 10\<rparr>]" "\<lparr>px = 0, py = 0\<rparr>"
              "\<lparr>px = 0, py = 0\<rparr>" "\<lparr>px = 9, py = 9\<rparr>" "- 9" "- 9"]
        removeDuplicatePoints_computed_deltas
          [of "[]" "\<lparr>px = 0, py = 0\<rparr>" "\<lparr>px = 0, py = 0\<rparr>" "\<lparr>px = 10, py = 0\<rparr>" "- 10" 0]
  by (simp add: removeDuplicatePoints_def)

text \<open>
  C6 as stated fails: the two points \<open>(1 / 2 ^ 70, 0)\<close> and \<open>(10, 0)\<close> differ by less than 10 on
  both axes, but the binary64 difference of their abscissas is \<open>-10\<close>, and both are
  kept.
\<close>

theorem removeDuplicatePoints_exact_delta_counterexample:
  "\<bar>px \<lparr>px = 1 / 2 ^ 70, py = 0\<rparr> - px \<lparr>px = 10, py = 0\<rparr>\<bar> < 10 \<and>
   \<bar>py \<lparr>px = 1 / 2 ^ 70, py = 0\<rparr> - py \<lparr>px = 10, py = 0\<rparr>\<bar> < 10 \<and>
   removeDuplicatePoints [\<lparr>px = 1 / 2 ^ 70, py = 0\<rparr>, \<lparr>px = 10, py = 0\<rparr>] None =
     [\<lparr>px = 1 / 2 ^ 70, py = 0\<rparr>, \<lparr>px = 10, py = 0\<rparr>]"
  by code_simp

subsection \<open>The feature detector\<close>

lemma findLinesAndPoints_try_result:
  assumes "findLinesAndPoints_try cv binaryImage w = (Inr d, w')"
  shows "det_success d = (4 \<le> length (det_points d))"
  using assms
  by (auto simp: findLinesAndPoints_try_def Let_def elim!: andThen_InrE)

text \<open>
  C4. \<open>findLinesAndPoints\<close> never raises, and the record it returns has
  \<open>success = true\<close> exactly when it holds at least 4 points. A fault inside the \<open>try\<close>
  block gives \<open>{success: false, points: []}\<close>. When the line transform, the contour
  search and the contour measurements return, the candidates are the corners of the
  four-vertex approximations of the contours of area above 100, followed by the
  segment end points, and the points returned are their deduplication with threshold
  10: a subsequence of the candidates, in which no two points are within 10 of each
  other on both axes, and which holds a point within 10 on both axes of every
  candidate (differences as the code computes them).
\<close>

theorem findLinesAndPoints_outcome:
  "(\<exists>d w'. findLinesAndPoints cv binaryImage w = (Inr d, w') \<and>
            det_success d = (4 \<le> length (det_points d))) \<and>
   (\<forall>e w'. findLinesAndPoints_try cv binaryImage w = (Inl e, w') \<longrightarrow>
      findLinesAndPoints cv binaryImage w = (Inr \<lparr>det_success = False, det_points = []\<rparr>, w')) \<and>
   (cv_HoughLinesP cv binaryImage 1 (pi / 180) 50 50 10 = Inr linesP \<and>
    cv_findContours cv binaryImage RETR_EXTERNAL CHAIN_APPROX_SIMPLE = Inr contours \<and>
    (\<forall>c \<in> set contours. cv_contourArea cv c = Inr (area c) \<and>
       (area c > 100 \<longrightarrow> cv_arcLength cv c True = Inr (perimeter c) \<and>
          cv_approxPolyDP cv c (0.02 * perimeter c) True = Inr (poly c))) \<longrightarrow>
    (let merged =
           concat (map (\<lambda>c. if area c > 100 \<and> length (poly c) = 4 then poly c else []) contours) @
           concat (map (\<lambda>(x1, y1, x2, y2). [\<lparr>px = x1, py = y1\<rparr>, \<lparr>px = x2, py = y2\<rparr>]) linesP)
     in \<exists>uniquePoints.
          findLinesAndPoints cv binaryImage w =
            (Inr \<lparr>det_success = (4 \<le> length uniquePoints), det_points = uniquePoints\<rparr>, w) \<and>
          uniquePoints = removeDuplicatePoints merged (Some 10) \<and>
          subseq uniquePoints merged \<and>
          (\<forall>q \<in> set merged. \<exists>k \<in> set uniquePoints.
             \<bar>binary64 (px k - px q)\<bar> < 10 \<and> \<bar>binary64 (py k - py q)\<bar> < 10) \<and>
          (\<forall>i j. i < j \<and> j < length uniquePoints \<longrightarrow>
             \<not> (\<bar>binary64 (px (uniquePoints ! i) - px (uniquePoints ! j))\<bar> < 10 \<and>
                \<bar>binary64 (py (uniquePoints ! i) - py (uniquePoints ! j))\<bar> < 10))))"
proof (intro conjI allI impI)
  show "\<exists>d w'. findLinesAndPoints cv binaryImage w = (Inr d, w') \<and>
            det_success d = (4 \<le> length (det_points d))"
  proof (cases "findLinesAndPoints_try cv binaryImage w")
    case (Pair outcome w1)
    show ?thesis
    proof (cases outcome)
      case (Inl e)
      with Pair show ?thesis by (simp add: findLinesAndPoints_def try_catch_apply)
    next
      case (Inr d)
      with Pair findLinesAndPoints_try_result[of cv binaryImage w d w1] show ?thesis
        by (simp add: findLinesAndPoints_def try_catch_apply)
    qed
  qed
next
  fix e w'
  assume "findLinesAndPoints_try cv binaryImage w = (Inl e, w')"
  then show "findLinesAndPoints cv binaryImage w = (Inr \<lparr>det_success = False, det_points = []\<rparr>, w')"
    by (simp add: findLinesAndPoints_def try_catch_apply)
next
  assume h: "cv_HoughLinesP cv binaryImage 1 (pi / 180) 50 50 10 = Inr linesP \<and>
    cv_findContours cv binaryImage RETR_EXTERNAL CHAIN_APPROX_SIMPLE = Inr contours \<and>
    (\<forall>c \<in> set contours. cv_contourArea cv c = Inr (area c) \<and>
       (area c > 100 \<longrightarrow> cv_arcLength cv c True = Inr (perimeter c) \<and>
          cv_approxPolyDP cv c (0.02 * perimeter c) True = Inr (poly c)))"
  then have hough: "cv_HoughLinesP cv binaryImage 1 (pi / 180) 50 50 10 = Inr linesP"
    and found: "cv_findContours cv binaryImage RETR_EXTERNAL CHAIN_APPROX_SIMPLE = Inr contours"
    and each: "\<forall>c \<in> set contours. cv_contourArea cv c = Inr (area c) \<and>
       (area c > 100 \<longrightarrow> cv_arcLength cv c True = Inr (perimeter c) \<and>
          cv_approxPolyDP cv c (0.02 * perimeter c) True = Inr (poly c))"
    by blast+
  let ?merged = "concat (map (\<lambda>c. if area c > 100 \<and> length (poly c) = 4 then poly c else []) contours) @
           concat (map (\<lambda>(x1, y1, x2, y2). [\<lparr>px = x1, py = y1\<rparr>, \<lparr>px = x2, py = y2\<rparr>]) linesP)"
  let ?unique = "removeDuplicatePoints ?merged (Some 10)"
  have run: "findLinesAndPoints cv binaryImage w =
      (Inr \<lparr>det_success = (4 \<le> length ?unique), det_points = ?unique\<rparr>, w)"
    using hough found
    by (simp add: findLinesAndPoints_def findLinesAndPoints_try_def try_catch_apply andThen_apply
          findLinesAndPoints_contours_ok[OF each] Let_def alloc_def free_def)
  have sub: "subseq ?unique ?merged"
    by (rule removeDuplicatePoints_subseq)
  have cover: "\<forall>q \<in> set ?merged. \<exists>k \<in> set ?unique.
             \<bar>binary64 (px k - px q)\<bar> < 10 \<and> \<bar>binary64 (py k - py q)\<bar> < 10"
    using removeDuplicatePoints_covers[of 10 _ ?merged] by simp
  have apart: "\<forall>i j. i < j \<and> j < length ?unique \<longrightarrow>
             \<not> (\<bar>binary64 (px (?unique ! i) - px (?unique ! j))\<bar> < 10 \<and>
                \<bar>binary64 (py (?unique ! i) - py (?unique ! j))\<bar> < 10)"
    using removeDuplicatePoints_apart[of _ _ ?merged 10] by blast
  show "let merged =
           concat (map (\<lambda>c. if area c > 100 \<and> length (poly c) = 4 then poly c else []) contours) @
           concat (map (\<lambda>(x1, y1, x2, y2). [\<lparr>px = x1, py = y1\<rparr>, \<lparr>px = x2, py = y2\<rparr>]) linesP)
     in \<exists>uniquePoints.
          findLinesAndPoints cv binaryImage w =
            (Inr \<lparr>det_success = (4 \<le> length uniquePoints), det_points = uniquePoints\<rparr>, w) \<and>
          uniquePoints = removeDuplicatePoints merged (Some 10) \<and>
          subseq uniquePoints merged \<and>
          (\<forall>q \<in> set merged. \<exists>k \<in> set uniquePoints.
             \<bar>binary64 (px k - px q)\<bar> < 10 \<and> \<bar>binary64 (py k - py q)\<bar> < 10) \<and>
          (\<forall>i j. i < j \<and> j < length uniquePoints \<longrightarrow>
             \<not> (\<bar>binary64 (px (uniquePoints ! i) - px (uniquePoints ! j))\<bar> < 10 \<and>
                \<bar>binary64 (py (uniquePoints ! i) - py (uniquePoints ! j))\<bar> < 10))"
    unfolding Let_def
    using run sub cover apart by (intro exI[of _ ?unique]) blast
qed

theorem findLinesAndPoints_outcome_witness:
  "findLinesAndPoints cv_segments gray_mat new_aligner =
     (Inr \<lparr>det_success = False,
          det_points = [\<lparr>px = 0, py = 0\<rparr>, \<lparr>px = 100, py = 0\<rparr>, \<lparr>px = 0, py = 100\<rparr>]\<rparr>,
      new_aligner) \<and>
   findLinesAndPoints cv_frame_segment gray_mat new_aligner =
     (Inr \<lparr>det_success = True,
          det_points = rectangle 10 10 90 90 @ [\<lparr>px = 50, py = 50\<rparr>]\<rparr>, new_aligner) \<and>
   findLinesAndPoints_try cv_frame_hough_fault gray_mat new_aligner =
     (Inl (NativeFault 1), alloc LinesP new_aligner) \<and>
   findLinesAndPoints cv_frame_hough_fault gray_mat new_aligner =
     (Inr \<lparr>det_success = False, det_points = []\<rparr>, alloc LinesP new_aligner)"
proof -
  have segments: "cv_HoughLinesP cv_segments gray_mat 1 (pi / 180) 50 50 10 =
        Inr [(0, 0, 100, 0), (100, 5, 0, 100)] \<and>
      cv_findContours cv_segments gray_mat RETR_EXTERNAL CHAIN_APPROX_SIMPLE = Inr [] \<and>
      (\<forall>c \<in> set []. cv_contourArea cv_segments c = Inr (rectangle_area c) \<and>
         (rectangle_area c > 100 \<longrightarrow> cv_arcLength cv_segments c True = Inr 0 \<and>
            cv_approxPolyDP cv_segments c (0.02 * 0) True = Inr c))"
    by (simp add: cv_segments_def cv_blank_def)
  have frame: "cv_HoughLinesP cv_frame_segment gray_mat 1 (pi / 180) 50 50 10 =
        Inr [(12, 12, 50, 50)] \<and>
      cv_findContours cv_frame_segment gray_mat RETR_EXTERNAL CHAIN_APPROX_SIMPLE =
        Inr [rectangle 10 10 90 90] \<and>
      (\<forall>c \<in> set [rectangle 10 10 90 90]. cv_contourArea cv_frame_segment c = Inr (rectangle_area c) \<and>
         (rectangle_area c > 100 \<longrightarrow> cv_arcLength cv_frame_segment c True = Inr 0 \<and>
            cv_approxPolyDP cv_frame_segment c (0.02 * 0) True = Inr c))"
    by (simp add: cv_frame_segment_def cv_frame_def cv_blank_def)
  have fault: "findLinesAndPoints_try cv_frame_hough_fault gray_mat new_aligner =
     (Inl (NativeFault 1), alloc LinesP new_aligner)"
    by (simp add: findLinesAndPoints_try_def andThen_apply cv_frame_hough_fault_def cv_frame_def
          cv_blank_def)
  have dedup1: "removeDuplicatePoints
       [\<lparr>px = 0, py = 0\<rparr>, \<lparr>px = 100, py = 0\<rparr>, \<lparr>px = 100, py = 5\<rparr>, \<lparr>px = 0, py = 100\<rparr>] (Some 10) =
       [\<lparr>px = 0, py = 0\<rparr>, \<lparr>px = 100, py = 0\<rparr>, \<lparr>px = 0, py = 100\<rparr>]"
    by (simp add: removeDuplicatePoints_def)
  have dedup2: "removeDuplicatePoints
       [\<lparr>px = 10, py = 10\<rparr>, \<lparr>px = 90, py = 10\<rparr>, \<lparr>px = 90, py = 90\<rparr>, \<lparr>px = 10, py = 90\<rparr>,
        \<lparr>px = 12, py = 12\<rparr>, \<lparr>px = 50, py = 50\<rparr>] (Some 10) =
       [\<lparr>px = 10, py = 10\<rparr>, \<lparr>px = 90, py = 10\<rparr>, \<lparr>px = 90, py = 90\<rparr>, \<lparr>px = 10, py = 90\<rparr>,
        \<lparr>px = 50, py = 50\<rparr>]"
    by (simp add: removeDuplicatePoints_def)
  from findLinesAndPoints_outcome
         [where cv = cv_segments and binaryImage = gray_mat and w = new_aligner
            and linesP = "[(0, 0, 100, 0), (100, 5, 0, 100)]" and contours = "[]"
            and area = rectangle_area and perimeter = "\<lambda>c. 0" and poly = "\<lambda>c. c"]
       segments
  have one: "findLinesAndPoints cv_segments gray_mat new_aligner =
     (Inr \<lparr>det_success = False,
          det_points = [\<lparr>px = 0, py = 0\<rparr>, \<lparr>px = 100, py = 0\<rparr>, \<lparr>px = 0, py = 100\<rparr>]\<rparr>,
      new_aligner)"
    by (simp add: dedup1)
  from findLinesAndPoints_outcome
         [where cv = cv_frame_segment and binaryImage = gray_mat and w = new_aligner
            and linesP = "[(12, 12, 50, 50)]" and contours = "[rectangle 10 10 90 90]"
            and area = rectangle_area and perimeter = "\<lambda>c. 0" and poly = "\<lambda>c. c"]
       frame
  have two: "findLinesAndPoints cv_frame_segment gray_mat new_aligner =
     (Inr \<lparr>det_success = True,
          det_points = rectangle 10 10 90 90 @ [\<lparr>px = 50, py = 50\<rparr>]\<rparr>, new_aligner)"
    by (simp add: dedup2 rectangle_area_def rectangle_def)
  from findLinesAndPoints_outcome
         [where cv = cv_frame_hough_fault and binaryImage = gray_mat and w = new_aligner]
       fault
  have three: "findLinesAndPoints cv_frame_hough_fault gray_mat new_aligner =
     (Inr \<lparr>det_success = False, det_points = []\<rparr>, alloc LinesP new_aligner)"
    by simp
  from one two fault three show ?thesis by simp
qed

subsection \<open>The choice of the binarization\<close>

lemma selectBestBinary_three:
  assumes "cv_findContours cv binary_otsu RETR_EXTERNAL CHAIN_APPROX_SIMPLE = Inr contours_otsu"
    and "cv_findContours cv binary_adaptive RETR_EXTERNAL CHAIN_APPROX_SIMPLE = Inr contours_adaptive"
    and "cv_findContours cv binary_fixed RETR_EXTERNAL CHAIN_APPROX_SIMPLE = Inr contours_fixed"
    and "\<forall>c \<in> set contours_otsu. cv_contourArea cv c = Inr (area c)"
    and "\<forall>c \<in> set contours_adaptive. cv_contourArea cv c = Inr (area c)"
    and "\<forall>c \<in> set contours_fixed. cv_contourArea cv c = Inr (area c)"
  shows "fst (selectBestBinary cv [binary_otsu, binary_adaptive, binary_fixed] gray w) =
     (let count = (\<lambda>contours. length (filter (\<lambda>c. area c > 10) contours)) in
      Inr (if count contours_otsu \<ge> count contours_adaptive \<and> count contours_otsu \<ge> count contours_fixed then binary_otsu
           else if count contours_adaptive \<ge> count contours_fixed then binary_adaptive else binary_fixed))"
  by (simp add: selectBestBinary_def try_finally_apply try_catch_apply andThen_apply Let_def
        selectBestBinary_loop_step[OF assms(1,4)] selectBestBinary_loop_step[OF assms(2,5)]
        selectBestBinary_loop_step[OF assms(3,6)] del: selectBestBinary_loop.simps(2))

lemma preprocessImage_fst:
  "fst (preprocessImage cv srcMat w) = fst (fst (preprocessImage_try cv srcMat w))"
  by (simp add: preprocessImage_def split: prod.splits)

lemma preprocessImage_try_fst:
  assumes "cols srcMat \<noteq> 0" "rows srcMat \<noteq> 0"
    and "(channels srcMat = 3 \<and> cv_cvtColor cv srcMat COLOR_RGB2GRAY = Inr gray) \<or>
         (channels srcMat = 4 \<and> cv_cvtColor cv srcMat COLOR_RGBA2GRAY = Inr gray) \<or>
         (channels srcMat \<noteq> 3 \<and> channels srcMat \<noteq> 4 \<and> gray = srcMat)"
    and "cv_threshold cv gray 0 255 THRESH_BINARY_OTSU = Inr binary_otsu"
    and "cv_adaptiveThreshold cv gray 255 ADAPTIVE_THRESH_GAUSSIAN_C THRESH_BINARY 11 2 = Inr binary_adaptive"
    and "cv_threshold cv gray 128 255 THRESH_BINARY = Inr binary_fixed"
  shows "\<exists>w1. fst (fst (preprocessImage_try cv srcMat w)) =
           fst (selectBestBinary cv [binary_otsu, binary_adaptive, binary_fixed] gray w1)"
  using assms
  by (auto simp: preprocessImage_try_def preprocessImage_gray_def split: prod.splits)
     (metis fst_conv)+

text \<open>
  C5. For a source of non-zero size whose grayscale conversion, three binarizations
  (Otsu; Gaussian adaptive with block size 11 and constant 2; fixed threshold 128, in
  this order) and contour measurements return, \<open>preprocessImage\<close> returns the
  candidate whose number of external contours of area above 10 is maximal, the
  earliest such candidate on ties. The witness has the counts 2, 5 and 3 and returns
  the second candidate.
\<close>

theorem preprocessImage_selects_most_contours:
  assumes "cols srcMat \<noteq> 0" "rows srcMat \<noteq> 0"
    and "(channels srcMat = 3 \<and> cv_cvtColor cv srcMat COLOR_RGB2GRAY = Inr gray) \<or>
         (channels srcMat = 4 \<and> cv_cvtColor cv srcMat COLOR_RGBA2GRAY = Inr gray) \<or>
         (channels srcMat \<noteq> 3 \<and> channels srcMat \<noteq> 4 \<and> gray = srcMat)"
    and "cv_threshold cv gray 0 255 THRESH_BINARY_OTSU = Inr binary_otsu"
    and "cv_adaptiveThreshold cv gray 255 ADAPTIVE_THRESH_GAUSSIAN_C THRESH_BINARY 11 2 = Inr binary_adaptive"
    and "cv_threshold cv gray 128 255 THRESH_BINARY = Inr binary_fixed"
    and "cv_findContours cv binary_otsu RETR_EXTERNAL CHAIN_APPROX_SIMPLE = Inr contours_otsu"
    and "cv_findContours cv binary_adaptive RETR_EXTERNAL CHAIN_APPROX_SIMPLE = Inr contours_adaptive"
    and "cv_findContours cv binary_fixed RETR_EXTERNAL CHAIN_APPROX_SIMPLE = Inr contours_fixed"
    and "\<forall>c \<in> set contours_otsu \<union> set contours_adaptive \<union> set contours_fixed. cv_contourArea cv c = Inr (area c)"
  shows "let counts = map (\<lambda>contours. length (filter (\<lambda>c. area c > 10) contours))
                        [contours_otsu, contours_adaptive, contours_fixed]
         in \<exists>i < 3. fst (preprocessImage cv srcMat w) = Inr ([binary_otsu, binary_adaptive, binary_fixed] ! i) \<and>
                    (\<forall>j < 3. counts ! j \<le> counts ! i) \<and> (\<forall>j < i. counts ! j < counts ! i)"
proof -
  let ?count = "\<lambda>contours. length (filter (\<lambda>c. area c > 10) contours)"
  from assms(10) have a1: "\<forall>c \<in> set contours_otsu. cv_contourArea cv c = Inr (area c)"
    and a2: "\<forall>c \<in> set contours_adaptive. cv_contourArea cv c = Inr (area c)"
    and a3: "\<forall>c \<in> set contours_fixed. cv_contourArea cv c = Inr (area c)"
    by auto
  from preprocessImage_try_fst[OF assms(1-6), of w] obtain w1 where
    "fst (fst (preprocessImage_try cv srcMat w)) =
       fst (selectBestBinary cv [binary_otsu, binary_adaptive, binary_fixed] gray w1)" by blast
  then have result: "fst (preprocessImage cv srcMat w) =
      Inr (if ?count contours_otsu \<ge> ?count contours_adaptive \<and> ?count contours_otsu \<ge> ?count contours_fixed then binary_otsu
           else if ?count contours_adaptive \<ge> ?count contours_fixed then binary_adaptive else binary_fixed)"
    using selectBestBinary_three[OF assms(7-9) a1 a2 a3, of gray w1]
    by (simp add: preprocessImage_fst Let_def)
  consider (first) "?count contours_otsu \<ge> ?count contours_adaptive" "?count contours_otsu \<ge> ?count contours_fixed"
    | (second) "?count contours_otsu < ?count contours_adaptive" "?count contours_adaptive \<ge> ?count contours_fixed"
    | (third) "?count contours_otsu < ?count contours_fixed" "?count contours_adaptive < ?count contours_fixed"
    by linarith
  then show ?thesis
  proof cases
    case first
    with result show ?thesis
      unfolding Let_def by (intro exI[of _ 0]) (simp add: less_Suc_eq numeral_3_eq_3)
  next
    case second
    with result show ?thesis
      unfolding Let_def by (intro exI[of _ 1]) (auto simp: less_Suc_eq numeral_3_eq_3)
  next
    case third
    with result show ?thesis
      unfolding Let_def by (intro exI[of _ 2]) (auto simp: less_Suc_eq numeral_3_eq_3 numeral_2_eq_2)
  qed
qed

theorem preprocessImage_selects_most_contours_witness:
  "fst (preprocessImage cv_counts rgba_mat new_aligner) =
     Inr (rgba_mat\<lparr>channels := 1, elems := [11]\<rparr>)"
proof -
  let ?gray = "rgba_mat\<lparr>channels := 1\<rparr>"
  let ?otsu = "rgba_mat\<lparr>channels := 1, elems := [0]\<rparr>"
  let ?adaptive = "rgba_mat\<lparr>channels := 1, elems := [11]\<rparr>"
  let ?fixed = "rgba_mat\<lparr>channels := 1, elems := [128]\<rparr>"
  let ?c1 = "replicate 2 (rectangle 0 0 4 4) @ [rectangle 0 0 2 5]"
  let ?c2 = "replicate 5 (rectangle 0 0 4 4)"
  let ?c3 = "replicate 3 (rectangle 0 0 4 4)"
  have size: "cols rgba_mat \<noteq> 0" "rows rgba_mat \<noteq> 0"
    by (simp_all add: rgba_mat_def)
  have gray: "(channels rgba_mat = 3 \<and> cv_cvtColor cv_counts rgba_mat COLOR_RGB2GRAY = Inr ?gray) \<or>
         (channels rgba_mat = 4 \<and> cv_cvtColor cv_counts rgba_mat COLOR_RGBA2GRAY = Inr ?gray) \<or>
         (channels rgba_mat \<noteq> 3 \<and> channels rgba_mat \<noteq> 4 \<and> ?gray = rgba_mat)"
    by (simp add: rgba_mat_def cv_counts_def cv_blank_def)
  have thresholds:
    "cv_threshold cv_counts ?gray 0 255 THRESH_BINARY_OTSU = Inr ?otsu"
    "cv_adaptiveThreshold cv_counts ?gray 255 ADAPTIVE_THRESH_GAUSSIAN_C THRESH_BINARY 11 2 = Inr ?adaptive"
    "cv_threshold cv_counts ?gray 128 255 THRESH_BINARY = Inr ?fixed"
    by (simp_all add: rgba_mat_def cv_counts_def cv_blank_def)
  have contours:
    "cv_findContours cv_counts ?otsu RETR_EXTERNAL CHAIN_APPROX_SIMPLE = Inr ?c1"
    "cv_findContours cv_counts ?adaptive RETR_EXTERNAL CHAIN_APPROX_SIMPLE = Inr ?c2"
    "cv_findContours cv_counts ?fixed RETR_EXTERNAL CHAIN_APPROX_SIMPLE = Inr ?c3"
    by (simp_all add: rgba_mat_def cv_counts_def cv_blank_def)
  have areas: "\<forall>c \<in> set ?c1 \<union> set ?c2 \<union> set ?c3. cv_contourArea cv_counts c = Inr (rectangle_area c)"
    by (simp add: cv_counts_def cv_blank_def)
  have counts: "map (\<lambda>contours. length (filter (\<lambda>c. rectangle_area c > 10) contours)) [?c1, ?c2, ?c3]
                  = [2, 5, 3]"
    by (simp add: rectangle_area_def rectangle_def)
  from preprocessImage_selects_most_contours
         [OF size gray thresholds contours areas, of new_aligner, unfolded Let_def counts]
  obtain i where i: "i < 3"
    and result: "fst (preprocessImage cv_counts rgba_mat new_aligner) = Inr ([?otsu, ?adaptive, ?fixed] ! i)"
    and largest: "\<forall>j < 3. [2, 5, 3 :: nat] ! j \<le> [2, 5, 3] ! i"
    by blast
  from largest have "(1::nat) < 3 \<longrightarrow> [2, 5, 3 :: nat] ! 1 \<le> [2, 5, 3] ! i" by (rule spec)
  then have "[2, 5, 3 :: nat] ! 1 \<le> [2, 5, 3] ! i" by simp
  with i have "i = 1"
    by (auto simp: less_Suc_eq numeral_3_eq_3)
  with result show ?thesis by simp
qed


subsection \<open>No fault leaves alignUserImage\<close>

lemma fallbackAlignment_try_result:
  assumes "fallbackAlignment_try cv srcMat w = (Inr r, w')"
  shows "\<exists>img. r = \<lparr>success = True, alignedImage = Some img, error = Null\<rparr>"
  using assms
  by (auto simp: fallbackAlignment_try_def Let_def elim!: andThen_InrE
        split: option.splits if_splits)

lemma fallbackAlignment_result:
  "\<exists>r w'. fallbackAlignment cv srcMat w = (Inr r, w') \<and>
     ((\<exists>img. r = \<lparr>success = True, alignedImage = Some img, error = Null\<rparr>) \<or>
      (\<exists>e. r = \<lparr>success = False, alignedImage = None, error = message e\<rparr>))"
proof (cases "fallbackAlignment_try cv srcMat w")
  case (Pair outcome w1)
  show ?thesis
  proof (cases outcome)
    case (Inl e)
    with Pair show ?thesis by (auto simp: fallbackAlignment_def try_catch_apply)
  next
    case (Inr r)
    with Pair fallbackAlignment_try_result[of cv srcMat w r w1] show ?thesis
      by (auto simp: fallbackAlignment_def try_catch_apply)
  qed
qed

lemma fallbackAlignment_success:
  assumes "fallbackAlignment cv srcMat w = (Inr r, w')" "success r"
  shows "\<exists>img. r = \<lparr>success = True, alignedImage = Some img, error = Null\<rparr>"
  using fallbackAlignment_result[of cv srcMat w] assms by auto

lemma alignUserImage_try_result:
  assumes "alignUserImage_try global_cv userImageElement w = (Inr r, w')"
  shows "\<exists>img. r = \<lparr>success = True, alignedImage = Some img, error = Null\<rparr>"
proof (cases global_cv)
  case None
  with assms show ?thesis by (simp add: alignUserImage_try_def)
next
  case (Some cv)
  with assms show ?thesis
    by (auto simp: alignUserImage_try_def elim!: andThen_InrE split: if_splits)
       (rule fallbackAlignment_success, assumption+)+
qed

text \<open>The faults of the stages do leave the \<open>try\<close> block: a fault of \<open>imread\<close>, a fault
  of the preprocessor, a failed fallback, a fault of the transform estimation and a
  fault of the warp.\<close>

lemma alignUserImage_try_imread_fault:
  assumes "cv_imread cv userImageElement = Inl e"
  shows "alignUserImage_try (Some cv) userImageElement w = (Inl e, w)"
  using assms by (simp add: alignUserImage_try_def andThen_apply)

lemma alignUserImage_try_preprocess_fault:
  assumes "cv_imread cv userImageElement = Inr srcMat"
    and "preprocessImage cv srcMat (alloc ImreadMat w) = (Inl e, w1)"
  shows "alignUserImage_try (Some cv) userImageElement w = (Inl e, w1)"
  using assms by (simp add: alignUserImage_try_def andThen_apply)

lemma alignUserImage_try_fallback_failed:
  assumes "cv_imread cv userImageElement = Inr srcMat"
    and "preprocessImage cv srcMat (alloc ImreadMat w) = (Inr binarySrc, w1)"
    and "findLinesAndPoints cv binarySrc w1 = (Inr srcResult, w2)"
    and "\<not> det_success srcResult \<or> length (det_points srcResult) < 4"
    and "fallbackAlignment cv srcMat w2 = (Inr fallbackResult, w3)"
    and "\<not> success fallbackResult"
  shows "alignUserImage_try (Some cv) userImageElement w = (Inl AlignmentFailed, w3)"
  using assms by (auto simp: alignUserImage_try_def andThen_apply)

lemma alignUserImage_try_transform_fault:
  assumes "cv_imread cv userImageElement = Inr srcMat"
    and "preprocessImage cv srcMat (alloc ImreadMat w) = (Inr binarySrc, w1)"
    and "findLinesAndPoints cv binarySrc w1 = (Inr srcResult, w2)"
    and "det_success srcResult" "4 \<le> length (det_points srcResult)"
    and "calculatePerspectiveTransform cv (det_points srcResult) (templatePoints w2) w2 = (Inl e, w3)"
  shows "alignUserImage_try (Some cv) userImageElement w = (Inl e, w3)"
  using assms by (simp add: alignUserImage_try_def andThen_apply)

lemma alignUserImage_try_warp_fault:
  assumes "cv_imread cv userImageElement = Inr srcMat"
    and "preprocessImage cv srcMat (alloc ImreadMat w) = (Inr binarySrc, w1)"
    and "findLinesAndPoints cv binarySrc w1 = (Inr srcResult, w2)"
    and "det_success srcResult" "4 \<le> length (det_points srcResult)"
    and "calculatePerspectiveTransform cv (det_points srcResult) (templatePoints w2) w2 = (Inr M, w3)"
    and "cv_warpPerspective cv srcMat M
           \<lparr>width = width (templateSize w2), height = height (templateSize w2)\<rparr> = Inl e"
  shows "alignUserImage_try (Some cv) userImageElement w = (Inl e, alloc AlignedImg w3)"
  using assms by (simp add: alignUserImage_try_def andThen_apply)

lemma alignUserImage_try_detection_fault:
  assumes "cv_imread cv userImageElement = Inr srcMat"
    and "preprocessImage cv srcMat (alloc ImreadMat w) = (Inr binarySrc, w1)"
    and "findLinesAndPoints_try cv binarySrc w1 = (Inl e, w2)"
    and "fallbackAlignment cv srcMat w2 = (Inr fallbackResult, w3)"
  shows "alignUserImage_try (Some cv) userImageElement w =
           (if success fallbackResult then Inr fallbackResult else Inl AlignmentFailed, w3)"
  using assms
  by (simp add: alignUserImage_try_def findLinesAndPoints_def andThen_apply try_catch_apply)

text \<open>
  C2 (amended). \<open>alignUserImage\<close> propagates no fault: every call returns a result,
  which is either a success with an image and \<open>error: null\<close>, or
  \<open>{success: false, alignedImage: null, error}\<close>. On a ready aligner, every fault that
  leaves the \<open>try\<close> block is surfaced as that failure result, in the state the fault
  left; its \<open>error\<close> is the \<open>message\<close> of the caught value, which is \<open>undefined\<close> when the
  value is not an \<open>Error\<close> object. A fault raised inside the \<open>try\<close> block of
  \<open>findLinesAndPoints\<close> does not leave the \<open>try\<close> block of \<open>alignUserImage\<close>: the call
  then returns what \<open>fallbackAlignment\<close> returns on the sample when that is a success,
  and the alignment-failed failure otherwise.
\<close>

theorem alignUserImage_no_fault_escapes:
  "\<exists>r w'. alignUserImage global_cv userImageElement w = (Inr r, w') \<and>
     ((\<exists>img. r = \<lparr>success = True, alignedImage = Some img, error = Null\<rparr>) \<or>
      (\<exists>e. r = \<lparr>success = False, alignedImage = None, error = message e\<rparr>)) \<and>
     (isInitialized w \<longrightarrow>
        (\<forall>e w''. alignUserImage_try global_cv userImageElement w = (Inl e, w'') \<longrightarrow>
           r = \<lparr>success = False, alignedImage = None, error = message e\<rparr> \<and> w' = w'')) \<and>
     (isInitialized w \<and> global_cv = Some cv \<and>
      cv_imread cv userImageElement = Inr srcMat \<and>
      preprocessImage cv srcMat (alloc ImreadMat w) = (Inr binarySrc, w1) \<and>
      findLinesAndPoints_try cv binarySrc w1 = (Inl detectionFault, w2) \<and>
      fallbackAlignment cv srcMat w2 = (Inr fallbackResult, w3) \<longrightarrow>
        r = (if success fallbackResult then fallbackResult
             else \<lparr>success = False, alignedImage = None, error = Message AlignmentFailed\<rparr>) \<and>
        w' = w3)"
proof (cases "isInitialized w")
  case False
  have "message NotInitialized = Message NotInitialized" by simp
  then have "\<exists>e. Message NotInitialized = message e" by metis
  with False show ?thesis by (simp add: alignUserImage_def andThen_apply)
next
  case True
  have handover: "alignUserImage_try global_cv userImageElement w =
        (if success fallbackResult then Inr fallbackResult else Inl AlignmentFailed, w3)"
    if "global_cv = Some cv \<and>
      cv_imread cv userImageElement = Inr srcMat \<and>
      preprocessImage cv srcMat (alloc ImreadMat w) = (Inr binarySrc, w1) \<and>
      findLinesAndPoints_try cv binarySrc w1 = (Inl detectionFault, w2) \<and>
      fallbackAlignment cv srcMat w2 = (Inr fallbackResult, w3)"
    using that alignUserImage_try_detection_fault[of cv userImageElement srcMat w binarySrc w1
        detectionFault w2 fallbackResult w3]
    by simp
  show ?thesis
  proof (cases "alignUserImage_try global_cv userImageElement w")
    case (Pair outcome wt)
    show ?thesis
    proof (cases outcome)
      case (Inl e)
      with Pair True handover show ?thesis
        by (auto simp: alignUserImage_def andThen_apply try_catch_apply split: if_splits)
    next
      case (Inr r)
      with Pair True handover alignUserImage_try_result[of global_cv userImageElement w r wt]
      show ?thesis
        by (auto simp: alignUserImage_def andThen_apply try_catch_apply split: if_splits)
    qed
  qed
qed

theorem alignUserImage_no_fault_escapes_witness:
  "isInitialized ready_aligner \<and>
   fst (alignUserImage_try (Some cv_blank) picture ready_aligner) = Inl AlignmentFailed \<and>
   fst (alignUserImage (Some cv_blank) picture ready_aligner) =
     Inr \<lparr>success = False, alignedImage = None, error = Message AlignmentFailed\<rparr> \<and>
   cv_imread cv_frame_hough_fault picture = Inr rgba_mat \<and>
   fst (preprocessImage cv_frame_hough_fault rgba_mat (alloc ImreadMat ready_aligner)) =
     Inr \<lparr>rows = 100, cols = 100, channels = 1, elems = [0]\<rparr> \<and>
   fst (findLinesAndPoints_try cv_frame_hough_fault
          \<lparr>rows = 100, cols = 100, channels = 1, elems = [0]\<rparr>
          (snd (preprocessImage cv_frame_hough_fault rgba_mat (alloc ImreadMat ready_aligner)))) =
     Inl (NativeFault 1) \<and>
   alignUserImage (Some cv_frame_hough_fault) picture ready_aligner =
     fallbackAlignment cv_frame_hough_fault rgba_mat
       (snd (findLinesAndPoints_try cv_frame_hough_fault
          \<lparr>rows = 100, cols = 100, channels = 1, elems = [0]\<rparr>
          (snd (preprocessImage cv_frame_hough_fault rgba_mat (alloc ImreadMat ready_aligner))))) \<and>
   fst (alignUserImage (Some cv_frame_hough_fault) picture ready_aligner) =
     Inr \<lparr>success = True,
          alignedImage = Some \<lparr>rows = 600, cols = 800, channels = 4, elems = []\<rparr>,
          error = Null\<rparr>"
proof -
  let ?cv = cv_frame_hough_fault
  let ?binary = "\<lparr>rows = 100, cols = 100, channels = 1, elems = [0]\<rparr>"
  let ?pre = "preprocessImage ?cv rgba_mat (alloc ImreadMat ready_aligner)"
  let ?det = "findLinesAndPoints_try ?cv ?binary (snd ?pre)"
  let ?fall = "fallbackAlignment ?cv rgba_mat (snd ?det)"
  let ?found = "\<lparr>success = True,
          alignedImage = Some \<lparr>rows = 600, cols = 800, channels = 4, elems = []\<rparr>,
          error = Null\<rparr>"
  have ready: "isInitialized ready_aligner"
    by (simp add: ready_aligner_def)
  have blank: "fst (alignUserImage_try (Some cv_blank) picture ready_aligner) = Inl AlignmentFailed"
    by (simp add: alignUserImage_try_def preprocessImage_def
        preprocessImage_try_def preprocessImage_gray_def selectBestBinary_def
        findLinesAndPoints_def findLinesAndPoints_try_def removeDuplicatePoints_def
        fallbackAlignment_def fallbackAlignment_try_def prog_apply alloc_def free_def
        cv_blank_def picture_def ready_aligner_def)
  have read: "cv_imread ?cv picture = Inr rgba_mat"
    by (simp add: cv_frame_hough_fault_def cv_frame_def cv_blank_def picture_def rgba_mat_def)
  have pre: "fst ?pre = Inr ?binary"
    by (simp add: preprocessImage_def preprocessImage_try_def preprocessImage_gray_def
        selectBestBinary_def prog_apply alloc_def free_def
        cv_blank_def cv_frame_def cv_frame_hough_fault_def rectangle_def rectangle_area_def
        rgba_mat_def ready_aligner_def)
  have det: "fst ?det = Inl (NativeFault 1)"
    by (simp add: findLinesAndPoints_try_def andThen_apply cv_frame_hough_fault_def cv_frame_def
        cv_blank_def)
  have fall: "fst ?fall = Inr ?found"
    by (simp add: preprocessImage_def preprocessImage_try_def preprocessImage_gray_def
        selectBestBinary_def findLinesAndPoints_try_def
        fallbackAlignment_def fallbackAlignment_try_def calculatePerspectiveTransform_def
        createCVPointMatrix_def prog_apply alloc_def free_def
        cv_blank_def cv_frame_def cv_frame_hough_fault_def rectangle_def rectangle_area_def
        rgba_mat_def ready_aligner_def)
  from alignUserImage_no_fault_escapes
         [where global_cv = "Some cv_blank" and userImageElement = picture and w = ready_aligner]
       ready blank
  have one: "fst (alignUserImage (Some cv_blank) picture ready_aligner) =
     Inr \<lparr>success = False, alignedImage = None, error = Message AlignmentFailed\<rparr>"
    by (cases "alignUserImage_try (Some cv_blank) picture ready_aligner") auto
  from alignUserImage_no_fault_escapes
         [where global_cv = "Some ?cv" and userImageElement = picture and w = ready_aligner
            and cv = ?cv and srcMat = rgba_mat and binarySrc = ?binary and ?w1.0 = "snd ?pre"
            and detectionFault = "NativeFault 1" and ?w2.0 = "snd ?det"
            and fallbackResult = ?found and ?w3.0 = "snd ?fall"]
       ready read pre det fall
  have two: "alignUserImage (Some ?cv) picture ready_aligner = ?fall"
    by (auto simp: prod_eq_iff)
  from ready blank one read pre det two fall show ?thesis by simp
qed

text \<open>
  C2 as stated fails: a fault raised inside detection does not make the call return
  \<open>success: false\<close>. Here the line transform raises on the preprocessed sample;
  \<open>findLinesAndPoints\<close> catches the fault, the fallback aligner finds the frame, and
  \<open>alignUserImage\<close> returns \<open>success: true\<close> with the warped image.
\<close>

theorem alignUserImage_detection_fault_counterexample:
  "fst (preprocessImage cv_frame_hough_fault rgba_mat (alloc ImreadMat ready_aligner)) =
     Inr \<lparr>rows = 100, cols = 100, channels = 1, elems = [0]\<rparr> \<and>
   cv_HoughLinesP cv_frame_hough_fault \<lparr>rows = 100, cols = 100, channels = 1, elems = [0]\<rparr>
     1 (pi / 180) 50 50 10 = Inl (NativeFault 1) \<and>
   fst (alignUserImage (Some cv_frame_hough_fault) picture ready_aligner) =
     Inr \<lparr>success = True,
          alignedImage = Some \<lparr>rows = 600, cols = 800, channels = 4, elems = []\<rparr>,
          error = Null\<rparr>"
  by (simp add: alignUserImage_def alignUserImage_try_def preprocessImage_def
        preprocessImage_try_def preprocessImage_gray_def selectBestBinary_def
        findLinesAndPoints_def findLinesAndPoints_try_def removeDuplicatePoints_def
        fallbackAlignment_def fallbackAlignment_try_def calculatePerspectiveTransform_def
        createCVPointMatrix_def prog_apply alloc_def free_def
        cv_blank_def cv_frame_def cv_frame_hough_fault_def rectangle_def rectangle_area_def
        picture_def rgba_mat_def ready_aligner_def)

subsection \<open>The fallback aligner and the channel count\<close>

text \<open>
  C10 as stated fails on the class: \<open>fallbackAlignment\<close> has no test of the channel
  count. With a library whose conversion returns for a 3-channel matrix, the fallback
  succeeds on a 3-channel sample.
\<close>

theorem fallbackAlignment_three_channel_counterexample:
  "channels rgb_mat = 3 \<and>
   fst (fallbackAlignment cv_frame rgb_mat ready_aligner) =
     Inr \<lparr>success = True,
          alignedImage = Some \<lparr>rows = 600, cols = 800, channels = 3, elems = []\<rparr>,
          error = Null\<rparr>"
  by (simp add: fallbackAlignment_def fallbackAlignment_try_def calculatePerspectiveTransform_def
        createCVPointMatrix_def prog_apply alloc_def free_def
        cv_blank_def cv_frame_def rectangle_def rectangle_area_def rgb_mat_def ready_aligner_def)

text \<open>
  C10 (amended). \<open>fallbackAlignment\<close> has no test of the channel count: it requests the
  RGBA-to-gray conversion of the sample whatever its channel count, and it is the
  answer of the library that decides. Whenever that conversion raises, the call
  returns \<open>{success: false, alignedImage: null, error}\<close>, where \<open>error\<close> is the \<open>message\<close>
  of the value raised (\<open>undefined\<close> when that is not an \<open>Error\<close> object), and the \<open>gray\<close>
  matrix stays alive.
\<close>

theorem fallbackAlignment_conversion_fault:
  "cv_cvtColor cv srcMat COLOR_RGBA2GRAY = Inl e \<Longrightarrow>
   fallbackAlignment cv srcMat w =
     (Inr \<lparr>success = False, alignedImage = None, error = message e\<rparr>, alloc Gray w)"
  by (simp add: fallbackAlignment_def fallbackAlignment_try_def prog_apply)

theorem fallbackAlignment_conversion_fault_witness:
  "channels gray_mat = 1 \<and>
   cv_cvtColor cv_rgba_only gray_mat COLOR_RGBA2GRAY = Inl (NativeFault 2) \<and>
   fallbackAlignment cv_rgba_only gray_mat ready_aligner =
     (Inr \<lparr>success = False, alignedImage = None, error = Undefined\<rparr>,
      alloc Gray ready_aligner)"
  using fallbackAlignment_conversion_fault [of cv_rgba_only gray_mat "NativeFault 2" ready_aligner]
  by (simp add: cv_rgba_only_def cv_frame_def cv_blank_def gray_mat_def)

subsection \<open>Initialisation when detection fails\<close>

text \<open>
  Whatever the library does, \<open>initializeWithTemplate\<close> returns \<open>true\<close> only after a
  detection of at least 4 points: no path stores corner points of the template.
\<close>

lemma initializeWithTemplate_ready_only_after_detection:
  assumes "initializeWithTemplate global_cv templateImg w = (Inr True, w')"
  shows "4 \<le> length (templatePoints w') \<and> isInitialized w'"
proof -
  from assms have "initializeWithTemplate_try global_cv templateImg w = (Inr True, w')"
    by (auto simp: initializeWithTemplate_def try_catch_apply andThen_apply
          split: prod.splits sum.splits)
  then show ?thesis
    by (cases global_cv)
       (auto simp: initializeWithTemplate_try_def getFallbackPoints_def Let_def try_catch_apply
          free_def alloc_def
          elim!: andThen_InrE split: if_splits prod.splits sum.splits)
qed

text \<open>
  C1 (fails on the code). On a template on which detection finds fewer than 4 points
  (here: no segment and no contour), the \<open>try\<close> block of \<open>initializeWithTemplate\<close>
  raises the \<open>TypeError\<close> of the call of the missing \<open>getFallbackPoints\<close>; the call
  returns \<open>false\<close>, the aligner is not ready, and \<open>templatePoints\<close> is still empty
  instead of holding the four corners of the template.
\<close>

theorem initializeWithTemplate_detection_failure:
  "fst (initializeWithTemplate_try (Some cv_blank) picture new_aligner) =
     Inl (TypeError ''this.getFallbackPoints is not a function'') \<and>
   initializeWithTemplate (Some cv_blank) picture new_aligner =
     (Inr False,
      \<lparr>templateImage = None, templatePoints = [],
       templateSize = \<lparr>width = 100, height = 100\<rparr>, isInitialized = False,
       live = [BinaryClone, Hierarchy, Contours, Hierarchy, Contours, ImreadMat]\<rparr>)"
  by (simp add: initializeWithTemplate_def initializeWithTemplate_try_def requiredFunctions_def
        getFallbackPoints_def preprocessImage_def preprocessImage_try_def preprocessImage_gray_def
        selectBestBinary_def findLinesAndPoints_def findLinesAndPoints_try_def
        removeDuplicatePoints_def prog_apply alloc_def free_def
        cv_blank_def picture_def new_aligner_def)

theorem initializeWithTemplate_detection_failure_witness:
  "fst (initializeWithTemplate (Some cv_blank) picture new_aligner) = Inr False \<and>
   \<not> isInitialized (snd (initializeWithTemplate (Some cv_blank) picture new_aligner)) \<and>
   templatePoints (snd (initializeWithTemplate (Some cv_blank) picture new_aligner)) = []"
  using initializeWithTemplate_detection_failure
  by simp

subsection \<open>Native objects left alive\<close>

text \<open>
  C3 (fails on the code). Native objects stay alive after the calls: \<open>fallbackAlignment\<close>
  that throws the no-outer-frame error leaves \<open>gray\<close>, \<open>binary\<close>, \<open>contours\<close> and
  \<open>hierarchy\<close>; a failing \<open>alignUserImage\<close> leaves these and \<open>srcMat\<close>, \<open>binarySrc\<close> and
  the contour sets of two scoring iterations; a succeeding \<open>alignUserImage\<close> leaves the
  two point matrices and those contour sets next to the returned image; a failing
  \<open>initializeWithTemplate\<close> leaves \<open>templateMat\<close> and \<open>binaryTemplate\<close>.
\<close>

theorem native_objects_left_alive:
  "fallbackAlignment cv_blank rgba_mat new_aligner =
     (Inr \<lparr>success = False, alignedImage = None, error = Message NoOuterFrameFound\<rparr>,
      new_aligner\<lparr>live := [Hierarchy, Contours, Binary, Gray]\<rparr>) \<and>
   live (snd (alignUserImage (Some cv_blank) picture ready_aligner)) =
     [Hierarchy, Contours, Binary, Gray,
      BinaryClone, Hierarchy, Contours, Hierarchy, Contours, ImreadMat] \<and>
   live (snd (alignUserImage (Some cv_frame) picture ready_aligner)) =
     [AlignedImg, PointMatrix, PointMatrix, Hierarchy, Contours, Hierarchy, Contours] \<and>
   live (snd (initializeWithTemplate (Some cv_blank) picture new_aligner)) =
     [BinaryClone, Hierarchy, Contours, Hierarchy, Contours, ImreadMat]"
  by (simp add: alignUserImage_def alignUserImage_try_def preprocessImage_def
        preprocessImage_try_def preprocessImage_gray_def selectBestBinary_def
        findLinesAndPoints_def findLinesAndPoints_try_def removeDuplicatePoints_def
        fallbackAlignment_def fallbackAlignment_try_def calculatePerspectiveTransform_def
        createCVPointMatrix_def initializeWithTemplate_def initializeWithTemplate_try_def
        requiredFunctions_def getFallbackPoints_def prog_apply alloc_def free_def
        cv_blank_def cv_frame_def rectangle_def rectangle_area_def
        picture_def rgba_mat_def ready_aligner_def new_aligner_def)

theorem native_objects_left_alive_witness:
  "set (live (snd (fallbackAlignment cv_blank rgba_mat new_aligner))) =
     {Gray, Binary, Contours, Hierarchy} \<and>
   ImreadMat \<in> set (live (snd (alignUserImage (Some cv_blank) picture ready_aligner))) \<and>
   PointMatrix \<in> set (live (snd (alignUserImage (Some cv_frame) picture ready_aligner))) \<and>
   ImreadMat \<in> set (live (snd (initializeWithTemplate (Some cv_blank) picture new_aligner)))"
  using native_objects_left_alive
  by auto

subsection \<open>The identity transform\<close>









end
